theory Spec2Isabelle
  imports Main "HOL-Library.Word"
begin

section \<open>Positions, directions and ranges\<close>

text \<open>
  A tile position. The coordinates are 16-bit in the server (the spawn rows are read with
  \<^verbatim>\<open>as<int16_t>\<close>); every difference of two coordinates is computed in \<^verbatim>\<open>int\<close> and
  cannot overflow, so the coordinates are integers here.
\<close>

datatype position = Position (pos_x: int) (pos_y: int) (pos_z: int)

text \<open>
  The eight planar members of \<^verbatim>\<open>enum direction\<close>, in the order of their values 0..7: a
  random step is \<^verbatim>\<open>(direction)Random::uniform(0,7)\<close>.
\<close>

datatype direction =
    dir_north | dir_northeast | dir_east | dir_southeast
  | dir_south | dir_southwest | dir_west | dir_northwest

text \<open>The query shape \<^verbatim>\<open>struct Range\<close>: a planar radius and a vertical reach.\<close>

record Range =
  radius :: int
  zRadius :: int

section \<open>Characters\<close>

datatype character_type = player | monster | npc

datatype body_slot = LEFT_TOOL | RIGHT_TOOL

type_synonym item_id = nat

record Item =
  item_getId :: item_id

text \<open>
  A spawn point as \<^verbatim>\<open>World::initRespawns\<close> constructs it from a row of the table
  \<^verbatim>\<open>spawnpoint\<close>: position, wander range, spawn range, the two spawn times, the spawn-all
  flag, and the monster types that \<^verbatim>\<open>SpawnPoint::load\<close> reads for its id.
\<close>

record SpawnPoint =
  spawnPos :: position
  getRange :: int
  spawnrange :: nat
  min_spawntime :: nat
  max_spawntime :: nat
  spawnall :: bool
  SpawnTypes :: "(nat \<times> int) list"

definition get_x :: "SpawnPoint \<Rightarrow> int" where
  "get_x sp = pos_x (spawnPos sp)"

definition get_y :: "SpawnPoint \<Rightarrow> int" where
  "get_y sp = pos_y (spawnPos sp)"

text \<open>
  The class \<^verbatim>\<open>Character\<close> with the three classes derived from it. Each field is named
  after the accessor the two source files call. A pointer to a character is the record
  itself; a null pointer is \<open>None\<close>.
\<close>

record Character =
  getId :: nat
  getType :: character_type
  getPosition :: position
  isAlive :: bool
  getActiveLanguage :: int

record Player = Character +
  online :: bool
  lastkeepalive :: int

record Monster = Character +
  getMonsterType :: nat
  GetItemAt :: "body_slot \<Rightarrow> Item"
  getSpawn :: "SpawnPoint option"

record NPC = Character +
  hasScript :: bool

section \<open>The attack range of a monster\<close>

text \<open>
  \<^verbatim>\<open>Data::WeaponItems\<close>: the table of weapon data by item id. \<^verbatim>\<open>exists(id)\<close> tells whether
  the table has an entry, \<^verbatim>\<open>operator[]\<close> reads it. The local variable that receives the
  range is a \<^verbatim>\<open>uint16_t\<close>, so the field \<^verbatim>\<open>Range\<close> of an entry is a 16-bit word here.
\<close>

record WeaponStruct =
  weapon_Range :: "16 word"

type_synonym WeaponObjectTable = "item_id \<rightharpoonup> WeaponStruct"

definition table_exists :: "WeaponObjectTable \<Rightarrow> item_id \<Rightarrow> bool" where
  "table_exists t i \<longleftrightarrow> t i \<noteq> None"

definition table_at :: "WeaponObjectTable \<Rightarrow> item_id \<Rightarrow> WeaponStruct" where
  "table_at t i = the (t i)"

text \<open>
  World.cpp lines 368-377, and again, word for word, lines 544-553 (the monster on a
  route). The table is read only for an id that it holds.
  \<^verbatim>\<open>
  Item itl = monster.GetItemAt(LEFT_TOOL);
  Item itr = monster.GetItemAt(RIGHT_TOOL);
  uint16_t range=1;
  if (Data::WeaponItems.exists(itr.getId())) {
      range = Data::WeaponItems[itr.getId()].Range;
  } else if (Data::WeaponItems.exists(itl.getId())) {
      range = Data::WeaponItems[itl.getId()].Range;;
  }
  \<close>
\<close>

definition monsterAttackRange :: "WeaponObjectTable \<Rightarrow> 'a Monster_scheme \<Rightarrow> 16 word" where
  "monsterAttackRange WeaponItems m =
     (let itl = GetItemAt m LEFT_TOOL;
          itr = GetItemAt m RIGHT_TOOL;
          range = 1
      in if table_exists WeaponItems (item_getId itr) then
           weapon_Range (table_at WeaponItems (item_getId itr))
         else if table_exists WeaponItems (item_getId itl) then
           weapon_Range (table_at WeaponItems (item_getId itl))
         else range)"

section \<open>The random step of a monster and its spawn area\<close>

text \<open>
  The two \<^verbatim>\<open>switch\<close> statements of World.cpp lines 474-501 and 505-532. Every direction
  that a \<^verbatim>\<open>switch\<close> does not list falls to \<^verbatim>\<open>default: break\<close> and stays as it is.
\<close>

fun mirror_x :: "direction \<Rightarrow> direction" where
  "mirror_x dir_northeast = dir_northwest"
| "mirror_x dir_east = dir_west"
| "mirror_x dir_southeast = dir_southwest"
| "mirror_x dir_southwest = dir_southeast"
| "mirror_x dir_west = dir_east"
| "mirror_x dir_northwest = dir_northeast"
| "mirror_x d = d"

fun mirror_y :: "direction \<Rightarrow> direction" where
  "mirror_y dir_north = dir_south"
| "mirror_y dir_northeast = dir_southeast"
| "mirror_y dir_southeast = dir_northeast"
| "mirror_y dir_south = dir_north"
| "mirror_y dir_southwest = dir_northwest"
| "mirror_y dir_northwest = dir_southwest"
| "mirror_y d = d"

text \<open>
  World.cpp lines 462-534, the direction that \<^verbatim>\<open>monster.move\<close> receives. \<^verbatim>\<open>position::move\<close>
  is defined outside the two source files and is the parameter \<open>move\<close>; \<open>dir\<close> is the
  direction that \<^verbatim>\<open>Random::uniform(0,7)\<close> drew.
  \<^verbatim>\<open>
  SpawnPoint *spawn = monster.getSpawn();
  if (spawn) {
      position newpos = monster.getPosition();
      newpos.move(dir);
      int yoffs = spawn->get_y() - newpos.y;
      int xoffs = spawn->get_x() - newpos.x;
      if (abs(xoffs) > spawn->getRange()) { switch (dir) ... }
      if (abs(yoffs) > spawn->getRange()) { switch (dir) ... }
  }
  \<close>
\<close>

definition randomStepDirection ::
  "(position \<Rightarrow> direction \<Rightarrow> position) \<Rightarrow> 'a Monster_scheme \<Rightarrow> direction \<Rightarrow> direction" where
  "randomStepDirection move m dir =
     (case getSpawn m of
        None \<Rightarrow> dir
      | Some spawn \<Rightarrow>
          (let newpos = move (getPosition m) dir;
               yoffs = get_y spawn - pos_y newpos;
               xoffs = get_x spawn - pos_x newpos;
               dir1 = (if \<bar>xoffs\<bar> > getRange spawn then mirror_x dir else dir)
           in if \<bar>yoffs\<bar> > getRange spawn then mirror_y dir1 else dir1))"

text \<open>
  The words of the specification: the components of a compass direction on the two axes
  (east is \<open>+x\<close>, south is \<open>+y\<close>; the reflection properties do not depend on the signs),
  and the overflow of the candidate step, that is the offset of the candidate position
  from the spawn centre exceeding the spawn radius on one axis.
\<close>

fun dir_dx :: "direction \<Rightarrow> int" where
  "dir_dx dir_north = 0"
| "dir_dx dir_northeast = 1"
| "dir_dx dir_east = 1"
| "dir_dx dir_southeast = 1"
| "dir_dx dir_south = 0"
| "dir_dx dir_southwest = -1"
| "dir_dx dir_west = -1"
| "dir_dx dir_northwest = -1"

fun dir_dy :: "direction \<Rightarrow> int" where
  "dir_dy dir_north = -1"
| "dir_dy dir_northeast = -1"
| "dir_dy dir_east = 0"
| "dir_dy dir_southeast = 1"
| "dir_dy dir_south = 1"
| "dir_dy dir_southwest = 1"
| "dir_dy dir_west = 0"
| "dir_dy dir_northwest = -1"

definition x_overflows :: "SpawnPoint \<Rightarrow> position \<Rightarrow> bool" where
  "x_overflows sp cand \<longleftrightarrow> \<bar>pos_x (spawnPos sp) - pos_x cand\<bar> > getRange sp"

definition y_overflows :: "SpawnPoint \<Rightarrow> position \<Rightarrow> bool" where
  "y_overflows sp cand \<longleftrightarrow> \<bar>pos_y (spawnPos sp) - pos_y cand\<bar> > getRange sp"

section \<open>The world and its effects\<close>

datatype talk_type = tt_say | tt_whisper | tt_yell

text \<open>
  The calls that the modelled functions make on characters, on the logger, on the
  statistics and on functions of the world that are defined outside the two source files.
  Each function of the model appends the calls it makes, in the order it makes them, to
  the list \<open>events\<close> of the world. \<open>MonsterDecision\<close> stands for the block guarded by
  \<^verbatim>\<open>monster.canAct()\<close> (World.cpp lines 362-599), \<open>NpcCycle\<close> for the block guarded by
  \<^verbatim>\<open>npc->canAct() && npcScript\<close> (lines 657-664); the fragments of the monster's block that
  compute the attack range, the targets and the direction of the random step are the
  functions \<open>monsterAttackRange\<close>, \<open>getTargetsInRange\<close> and \<open>randomStepDirection\<close>.
\<close>

datatype Event =
    StartTimer string
  | StopTimer string
  | IncreaseActionPoints character_type nat int
  | IncreaseFightPoints character_type nat int
  | CheckEffects character_type nat
  | WorkoutCommands nat
  | CheckFightMode nat
  | CheckAction nat
  | ShutdownSend nat
  | RemovePlayerFromField nat
  | OnLogout nat
  | SendRemoveChar nat
  | MonsterDecision nat
  | KillMonster nat
  | SendCharacterMove nat
  | DeleteAllLostNPC
  | NpcCycle nat
  | IncreaseHitpoints nat
  | SendSpin nat
  | RemoveMonster nat
  | LogDebug string
  | LogInfo string
  | LogError string
  | ReceiveText character_type nat talk_type string nat

text \<open>
  The members of \<^verbatim>\<open>class World\<close> that the modelled functions read or write. World.hpp is
  not among the source files: the start time and the counter of used action points never
  go below zero (the start time is a clock reading times 1000, the counter starts at 0
  and only grows) and are natural numbers; the member \<^verbatim>\<open>ap\<close> is a signed integer of a
  fixed width, which is the parameter \<open>AP_BITS\<close> below. The three registries and the buffer of new monsters are lists in insertion order.
\<close>

record World =
  timeStart :: nat
  usedAP :: nat
  ap :: int
  Players :: "Player list"
  Monsters :: "Monster list"
  Npc :: "NPC list"
  newMonsters :: "Monster list"
  SpawnList :: "SpawnPoint list"
  events :: "Event list"

text \<open>
  The constants of tuningConstants.hpp that the modelled functions use, and the number of
  bits of the member \<^verbatim>\<open>ap\<close> that World.hpp declares. Neither header is among the source
  files, so the three are parameters.
\<close>

record tuningConstants =
  MIN_AP_UPDATE :: nat
  CLIENT_TIMEOUT :: int
  AP_BITS :: nat

text \<open>\<^verbatim>\<open>struct timeb\<close> as \<^verbatim>\<open>ftime\<close> fills it: seconds since the epoch and milliseconds.\<close>

datatype timeb = Timeb (tb_time: int) (tb_millitm: nat)

text \<open>
  What a cycle reads from outside the world: the clock of \<^verbatim>\<open>checkPlayers\<close>, whether the
  monster timer has run out, whether spawning is enabled, and the monsters that
  \<^verbatim>\<open>spawn.spawn()\<close> creates for each spawn point.
\<close>

record CycleInput =
  tempkeepalive :: int
  monstertimer_next :: bool
  isSpawnEnabled :: bool
  spawn_creates :: "SpawnPoint \<Rightarrow> Monster list"

text \<open>
  The constructor \<^verbatim>\<open>World::World\<close> (lines 92-109): \<^verbatim>\<open>usedAP = 0\<close> and
  \<^verbatim>\<open>timeStart = starttime*1000\<close>. It does not initialise \<^verbatim>\<open>ap\<close>, whose first value is the
  parameter \<open>ap0\<close>.
\<close>

definition World_new :: "nat \<Rightarrow> int \<Rightarrow> World" where
  "World_new starttime ap0 =
     \<lparr>timeStart = starttime * 1000, usedAP = 0, ap = ap0, Players = [], Monsters = [],
      Npc = [], newMonsters = [], SpawnList = [], events = []\<rparr>"

definition emit :: "Event list \<Rightarrow> World \<Rightarrow> World" where
  "emit es w = w\<lparr>events := events w @ es\<rparr>"

subsection \<open>The player phase\<close>

text \<open>
  The visitor of \<^verbatim>\<open>Players.for_each\<close> in \<^verbatim>\<open>World::checkPlayers\<close> (lines 210-248) for one
  player, with the clock reading \<open>tk\<close> and the action points \<open>a\<close> of the cycle.
\<close>

definition playerTurn :: "tuningConstants \<Rightarrow> int \<Rightarrow> int \<Rightarrow> Player \<Rightarrow> Event list" where
  "playerTurn c tk a p =
     (if online p then
        (let temptime = tk - lastkeepalive p
         in if 0 \<le> temptime \<and> temptime \<le> CLIENT_TIMEOUT c then
              [IncreaseActionPoints player (getId p) a, IncreaseFightPoints player (getId p) a,
               WorkoutCommands (getId p), CheckFightMode (getId p), CheckAction (getId p),
               CheckEffects player (getId p)]
            else [LogInfo ''timed out'', ShutdownSend (getId p)])
      else
        [LogInfo ''is offline'', RemovePlayerFromField (getId p), LogInfo ''logout'',
         OnLogout (getId p), SendRemoveChar (getId p)])"

text \<open>
  \<^verbatim>\<open>World::checkPlayers\<close>: the visitor runs on every player with the member \<^verbatim>\<open>ap\<close>; the
  players that are not online are collected and erased by id after the pass.
\<close>

definition checkPlayers :: "tuningConstants \<Rightarrow> CycleInput \<Rightarrow> World \<Rightarrow> World" where
  "checkPlayers c inp w =
     (let lostPlayers = filter (\<lambda>p. \<not> online p) (Players w)
      in w\<lparr>events := events w @ concat (map (playerTurn c (tempkeepalive inp) (ap w)) (Players w)),
           Players := filter (\<lambda>p. getId p \<notin> set (map getId lostPlayers)) (Players w)\<rparr>)"

subsection \<open>The monster phase\<close>

text \<open>
  Modelled from the spec: \<^verbatim>\<open>SpawnPoint::spawn\<close> is not among the source files. "Newly
  created monsters are buffered and only committed into the Spatial Entity Registry at a
  defined join point in the monster tick phase (not immediately)": the monsters that a
  spawn point creates go to the end of the buffer \<^verbatim>\<open>newMonsters\<close>.
\<close>

definition spawn_spawn :: "CycleInput \<Rightarrow> SpawnPoint \<Rightarrow> World \<Rightarrow> World" where
  "spawn_spawn inp sp w = w\<lparr>newMonsters := newMonsters w @ spawn_creates inp sp\<rparr>"

text \<open>World.cpp lines 335-343.\<close>

definition spawnMonsters :: "CycleInput \<Rightarrow> World \<Rightarrow> World" where
  "spawnMonsters inp w =
     (if monstertimer_next inp then
        (if isSpawnEnabled inp then fold (spawn_spawn inp) (SpawnList w) w
         else emit [LogInfo ''World::checkMonsters() spawning disabled!''] w)
      else w)"

text \<open>Lines 345-347: \<^verbatim>\<open>if (ap > 1) { --ap; }\<close>, on the member \<^verbatim>\<open>ap\<close> of the world.\<close>

definition decrementAP :: "World \<Rightarrow> World" where
  "decrementAP w = (if ap w > 1 then w\<lparr>ap := ap w - 1\<rparr> else w)"

text \<open>The visitor of \<^verbatim>\<open>Monsters.for_each\<close> (lines 351-603) for one monster.\<close>

definition monsterTurn :: "int \<Rightarrow> Monster \<Rightarrow> Event list" where
  "monsterTurn a m =
     (if isAlive m then
        [IncreaseActionPoints monster (getId m) a, IncreaseFightPoints monster (getId m) a,
         CheckEffects monster (getId m), MonsterDecision (getId m)]
      else [])"

definition deadMonsters :: "World \<Rightarrow> Monster list" where
  "deadMonsters w = filter (\<lambda>m. \<not> isAlive m) (Monsters w)"

definition visitMonsters :: "World \<Rightarrow> World" where
  "visitMonsters w = emit (concat (map (monsterTurn (ap w)) (Monsters w))) w"

text \<open>
  Modelled from the spec: \<^verbatim>\<open>World::killMonster\<close> is not among the source files. "Dead
  monsters are collected and removed from the registry in a deferred pass after the full
  scan completes": the monster of that id leaves the registry.
\<close>

definition killMonster :: "nat \<Rightarrow> World \<Rightarrow> World" where
  "killMonster i w =
     w\<lparr>Monsters := filter (\<lambda>m. getId m \<noteq> i) (Monsters w), events := events w @ [KillMonster i]\<rparr>"

text \<open>
  Modelled from the spec: \<^verbatim>\<open>CharacterContainer::insert\<close> is not among the source files. The
  registry's \<^verbatim>\<open>insert(entity)\<close> adds the entity; a character is in a registry when the
  registry holds a character of its id.
\<close>

definition Monsters_insert :: "Monster \<Rightarrow> World \<Rightarrow> World" where
  "Monsters_insert m w = w\<lparr>Monsters := Monsters w @ [m]\<rparr>"

definition inRegistry :: "'a Character_scheme \<Rightarrow> 'b Character_scheme list \<Rightarrow> bool" where
  "inRegistry m reg \<longleftrightarrow> getId m \<in> set (map getId reg)"

text \<open>
  The body of the loop over \<^verbatim>\<open>newMonsters\<close> (lines 609-622) for one monster; the call of
  the script's \<^verbatim>\<open>onSpawn\<close>, which depends on the monster table, is left out.
\<close>

definition commitMonster :: "Monster \<Rightarrow> World \<Rightarrow> World" where
  "commitMonster m w = emit [SendCharacterMove (getId m)] (Monsters_insert m w)"

text \<open>Lines 609-624: the loop over the buffer, then \<^verbatim>\<open>newMonsters.clear()\<close>.\<close>

definition commitNewMonsters :: "World \<Rightarrow> World" where
  "commitNewMonsters w = (fold commitMonster (newMonsters w) w)\<lparr>newMonsters := []\<rparr>"

text \<open>
  \<^verbatim>\<open>World::checkMonsters\<close> up to line 607, the last statement before the loop over the buffer
  of new monsters, and the whole function.
\<close>

definition checkMonsters_scan :: "CycleInput \<Rightarrow> World \<Rightarrow> World" where
  "checkMonsters_scan inp w =
     (let w1 = spawnMonsters inp w;
          w2 = decrementAP w1;
          w3 = visitMonsters w2
      in fold killMonster (map getId (deadMonsters w2)) w3)"

definition checkMonsters :: "CycleInput \<Rightarrow> World \<Rightarrow> World" where
  "checkMonsters inp w = commitNewMonsters (checkMonsters_scan inp w)"

text \<open>
  The monsters that the spawn points create in one run of \<^verbatim>\<open>checkMonsters\<close>, and every
  state of the world that the run goes through before the loop over the buffer of new
  monsters: at entry, after the spawn points, after the decrement of \<^verbatim>\<open>ap\<close>, after the
  pass over the registry, and after each call of \<^verbatim>\<open>killMonster\<close>.
\<close>

definition spawnedNow :: "CycleInput \<Rightarrow> World \<Rightarrow> Monster list" where
  "spawnedNow inp w =
     (if monstertimer_next inp \<and> isSpawnEnabled inp
      then concat (map (spawn_creates inp) (SpawnList w)) else [])"

definition statesBeforeCommit :: "CycleInput \<Rightarrow> World \<Rightarrow> World list" where
  "statesBeforeCommit inp w =
     (let w1 = spawnMonsters inp w;
          w2 = decrementAP w1;
          w3 = visitMonsters w2;
          dead = map getId (deadMonsters w2)
      in [w, w1, w2, w3] @ map (\<lambda>k. fold killMonster (take k dead) w3) [0..<Suc (length dead)])"

subsection \<open>The NPC phase\<close>

text \<open>The visitor of \<^verbatim>\<open>Npc.for_each\<close> in \<^verbatim>\<open>World::checkNPC\<close> (lines 650-669).\<close>

definition npcTurn :: "int \<Rightarrow> NPC \<Rightarrow> Event list" where
  "npcTurn a n =
     (if isAlive n then
        [IncreaseActionPoints npc (getId n) a, CheckEffects npc (getId n), NpcCycle (getId n)]
      else [IncreaseHitpoints (getId n), SendSpin (getId n)])"

definition checkNPC :: "World \<Rightarrow> World" where
  "checkNPC w = emit (DeleteAllLostNPC # concat (map (npcTurn (ap w)) (Npc w))) w"

subsection \<open>The tick governor\<close>

text \<open>
  \<^verbatim>\<open>unsigned long timeNow = now.time*1000 + now.millitm;\<close> (line 179), an unsigned 64-bit
  value.
\<close>

definition timeNow :: "timeb \<Rightarrow> nat" where
  "timeNow now = nat ((tb_time now * 1000 + int (tb_millitm now)) mod 2 ^ 64)"

text \<open>
  The right-hand side of line 181,
  \<^verbatim>\<open>ap = timeNow/MIN_AP_UPDATE - timeStart/MIN_AP_UPDATE - usedAP;\<close>
  as a value in the integers. Both divisions are divisions of values that are not
  negative, so they round down.
\<close>

definition budgetExpr :: "tuningConstants \<Rightarrow> timeb \<Rightarrow> World \<Rightarrow> int" where
  "budgetExpr c now w =
     int (timeNow now div MIN_AP_UPDATE c) - int (timeStart w div MIN_AP_UPDATE c) - int (usedAP w)"

text \<open>
  The assignment of line 181 stores the value in the member \<^verbatim>\<open>ap\<close>, a signed integer of
  \<open>AP_BITS\<close> bits: the machine computes the right-hand side modulo \<open>2 ^ 64\<close> and converts
  it to the type of \<^verbatim>\<open>ap\<close>, which keeps the value modulo \<open>2 ^ AP_BITS\<close> and reads it in
  two's complement. A value fits when the conversion leaves it as it is.
\<close>

definition to_ap :: "nat \<Rightarrow> int \<Rightarrow> int" where
  "to_ap bits v = (v + 2 ^ (bits - 1)) mod 2 ^ bits - 2 ^ (bits - 1)"

definition fits_ap :: "nat \<Rightarrow> int \<Rightarrow> bool" where
  "fits_ap bits v \<longleftrightarrow> 0 < bits \<and> - (2 ^ (bits - 1)) \<le> v \<and> v < 2 ^ (bits - 1)"

text \<open>The value that line 181 leaves in \<^verbatim>\<open>ap\<close>: the action points of the cycle.\<close>

definition tickBudget :: "tuningConstants \<Rightarrow> timeb \<Rightarrow> World \<Rightarrow> int" where
  "tickBudget c now w = to_ap (AP_BITS c) (budgetExpr c now w)"

text \<open>\<^verbatim>\<open>World::turntheworld\<close> (lines 177-200); \<open>now\<close> is what \<^verbatim>\<open>ftime(&now)\<close> reads.\<close>

definition turntheworld :: "tuningConstants \<Rightarrow> CycleInput \<Rightarrow> timeb \<Rightarrow> World \<Rightarrow> World" where
  "turntheworld c inp now w =
     (let w0 = w\<lparr>ap := tickBudget c now w\<rparr>
      in if ap w0 > 0 then
           (let w1 = w0\<lparr>usedAP := nat (int (usedAP w0) + ap w0)\<rparr>;
                w2 = emit [StartTimer ''cycle player''] w1;
                w3 = checkPlayers c inp w2;
                w4 = emit [StopTimer ''cycle player''] w3;
                w5 = emit [StartTimer ''cycle monster''] w4;
                w6 = checkMonsters inp w5;
                w7 = emit [StopTimer ''cycle monster''] w6;
                w8 = emit [StartTimer ''cycle npc''] w7;
                w9 = checkNPC w8
            in emit [StopTimer ''cycle npc''] w9)
         else w0)"

text \<open>
  The action points that a list of calls grants: the kind and id of the character and the
  amount of every \<^verbatim>\<open>increaseActionPoints\<close> and \<^verbatim>\<open>increaseFightPoints\<close>.
\<close>

fun grant :: "Event \<Rightarrow> (character_type \<times> nat \<times> int) list" where
  "grant (IncreaseActionPoints k i a) = [(k, i, a)]"
| "grant (IncreaseFightPoints k i a) = [(k, i, a)]"
| "grant e = []"

definition grants :: "Event list \<Rightarrow> (character_type \<times> nat \<times> int) list" where
  "grants es = concat (map grant es)"

fun isTimer :: "Event \<Rightarrow> bool" where
  "isTimer (StartTimer s) = True"
| "isTimer (StopTimer s) = True"
| "isTimer e = False"

section \<open>Range queries and combat targets\<close>

text \<open>
  Modelled from the spec: \<^verbatim>\<open>CharacterContainer::findAllCharactersInRangeOf\<close> and
  \<^verbatim>\<open>findAllAliveCharactersInRangeOf\<close> are not among the source files. The registry's
  \<^verbatim>\<open>findAllInRange(position, Range)\<close> returns the entities, "alive-only or all", within
  the query shape: "radius (planar) and z-radius (vertical tile-layer reach)", the
  boundary included. The specification does not name the planar metric, which is the
  parameter \<open>planar\<close>.
\<close>

definition isInRange :: "(position \<Rightarrow> position \<Rightarrow> int) \<Rightarrow> position \<Rightarrow> Range \<Rightarrow> position \<Rightarrow> bool" where
  "isInRange planar pos rng p \<longleftrightarrow>
     planar pos p \<le> radius rng \<and> \<bar>pos_z p - pos_z pos\<bar> \<le> zRadius rng"

definition findAllCharactersInRangeOf ::
  "(position \<Rightarrow> position \<Rightarrow> int) \<Rightarrow> 'a Character_scheme list \<Rightarrow> position \<Rightarrow> Range
     \<Rightarrow> 'a Character_scheme list" where
  "findAllCharactersInRangeOf planar reg pos rng =
     filter (\<lambda>c. isInRange planar pos rng (getPosition c)) reg"

definition findAllAliveCharactersInRangeOf ::
  "(position \<Rightarrow> position \<Rightarrow> int) \<Rightarrow> 'a Character_scheme list \<Rightarrow> position \<Rightarrow> Range
     \<Rightarrow> 'a Character_scheme list" where
  "findAllAliveCharactersInRangeOf planar reg pos rng =
     filter (\<lambda>c. isAlive c \<and> isInRange planar pos rng (getPosition c)) reg"

text \<open>The maximum metric on the plane, for the examples.\<close>

definition planar_max :: "position \<Rightarrow> position \<Rightarrow> int" where
  "planar_max pos p = max \<bar>pos_x p - pos_x pos\<bar> \<bar>pos_y p - pos_y pos\<bar>"

text \<open>
  \<^verbatim>\<open>World::getTargetsInRange\<close> (lines 628-644). The result is a vector of pointers to
  \<^verbatim>\<open>Character\<close>: the players and the monsters are seen through their base class.
\<close>

definition getTargetsInRange ::
  "(position \<Rightarrow> position \<Rightarrow> int) \<Rightarrow> World \<Rightarrow> position \<Rightarrow> int \<Rightarrow> Character list" where
  "getTargetsInRange planar w pos r =
     (let range = \<lparr>radius = r, zRadius = 0\<rparr>;
          players = findAllAliveCharactersInRangeOf planar (Players w) pos range;
          monsters = findAllAliveCharactersInRangeOf planar (Monsters w) pos range;
          targets = map Character.truncate players
      in targets @ map Character.truncate (filter (\<lambda>m. \<not> (pos = getPosition m)) monsters))"

text \<open>
  The words of the specification for the same query: "live players plus live monsters of
  a different allegiance at a different position". The source files give a monster no
  allegiance; \<open>allegiance\<close> is any attribute of monsters, \<open>querier\<close> the monster that asks.
\<close>

definition spec_targets ::
  "(Monster \<Rightarrow> 'g) \<Rightarrow> Monster \<Rightarrow> (position \<Rightarrow> position \<Rightarrow> int) \<Rightarrow> World \<Rightarrow> position \<Rightarrow> int
     \<Rightarrow> Character list" where
  "spec_targets allegiance querier planar w pos r =
     map Character.truncate
       (filter (\<lambda>p. isAlive p \<and> isInRange planar pos \<lparr>radius = r, zRadius = 0\<rparr> (getPosition p))
          (Players w)) @
     map Character.truncate
       (filter (\<lambda>m. isAlive m \<and> isInRange planar pos \<lparr>radius = r, zRadius = 0\<rparr> (getPosition m)
                    \<and> allegiance m \<noteq> allegiance querier \<and> getPosition m \<noteq> pos)
          (Monsters w))"

section \<open>Talking\<close>

text \<open>\<^verbatim>\<open>World::languagePrefix\<close> (WorldIMPLTalk.cpp lines 44-70).\<close>

definition languagePrefix :: "int \<Rightarrow> string" where
  "languagePrefix Language =
     (if Language = 0 then ''''
      else if Language = 1 then ''[Human] ''
      else if Language = 2 then ''[Dwarf] ''
      else if Language = 3 then ''[Elf] ''
      else if Language = 4 then ''[Lizard] ''
      else if Language = 5 then ''[Orc] ''
      else if Language = 6 then ''[Halfing] ''
      else if Language = 7 then ''[Ancient] ''
      else '''')"

text \<open>
  \<^verbatim>\<open>World::getTalkRange\<close> (lines 113-132). \<^verbatim>\<open>Range range;\<close> is default-constructed;
  \<^verbatim>\<open>struct Range\<close> is declared outside the source files, so its default value is the
  parameter \<open>dflt\<close>.
\<close>

definition getTalkRange :: "Range \<Rightarrow> talk_type \<Rightarrow> Range" where
  "getTalkRange dflt tt =
     (case tt of
        tt_say \<Rightarrow> dflt\<lparr>radius := 14\<rparr>
      | tt_whisper \<Rightarrow> dflt\<lparr>radius := 2, zRadius := 0\<rparr>
      | tt_yell \<Rightarrow> dflt\<lparr>radius := 30\<rparr>)"

text \<open>
  What \<^verbatim>\<open>sendMessageToAllCharsInRange\<close> calls outside the source files: the two hooks of
  the global \<^verbatim>\<open>playerChatScript\<close> (a null pointer is \<open>None\<close>; \<^verbatim>\<open>beforeReceiveText\<close> is
  called for its effect on \<^verbatim>\<open>tempMessage\<close>, whose value after the call it gives here),
  \<^verbatim>\<open>Player::nls\<close>, \<^verbatim>\<open>Character::getLanguageSkill\<close> and \<^verbatim>\<open>Character::alterSpokenMessage\<close>.
\<close>

record ChatScript =
  beforeSendText :: "Character \<Rightarrow> talk_type \<Rightarrow> string \<Rightarrow> string"
  beforeReceiveText :: "Player \<Rightarrow> talk_type \<Rightarrow> string \<Rightarrow> Character \<Rightarrow> string"

record TalkEnv =
  playerChatScript :: "ChatScript option"
  nls :: "Player \<Rightarrow> string \<Rightarrow> string \<Rightarrow> string"
  getLanguageSkill :: "NPC \<Rightarrow> int \<Rightarrow> int"
  alterSpokenMessage :: "NPC \<Rightarrow> string \<Rightarrow> int \<Rightarrow> string"
  defaultRange :: Range
  planarMetric :: "position \<Rightarrow> position \<Rightarrow> int"

text \<open>
  The arguments of one call; \<open>is_same\<close> is the comparison of the addresses of the two
  texts, \<^verbatim>\<open>bool is_same = &german == &english\<close> (line 150, which lacks its semicolon),
  true when the overload with one text made the call.
\<close>

record TalkCall =
  german :: string
  english :: string
  is_same :: bool
  talk :: talk_type
  speaker :: Character

definition is_action :: "TalkCall \<Rightarrow> bool" where
  "is_action t \<longleftrightarrow> take 3 (german t) = ''#me''"

text \<open>
  The loop over the players in range (lines 166-187). \<^verbatim>\<open>tempMessage\<close> lives across the
  iterations and is the accumulator \<open>tmp\<close>.
\<close>

fun tellPlayers :: "TalkEnv \<Rightarrow> TalkCall \<Rightarrow> string \<Rightarrow> Player list \<Rightarrow> Event list" where
  "tellPlayers env t tmp [] = []"
| "tellPlayers env t tmp (p # ps) =
     (let pfx = languagePrefix (getActiveLanguage (speaker t))
      in if \<not> is_action t \<and> getId p \<noteq> getId (speaker t) then
           (let tmp1 =
                  (case playerChatScript env of
                     Some s \<Rightarrow>
                       if is_same t then beforeReceiveText s p (talk t) tmp (speaker t)
                       else nls env p (german t) (english t)
                   | None \<Rightarrow> nls env p (german t) (english t))
            in ReceiveText player (getId p) (talk t) (pfx @ tmp1) (getId (speaker t))
                 # tellPlayers env t tmp1 ps)
         else
           (let tmp1 = (if \<not> is_same t then nls env p (german t) (english t) else tmp)
            in (if is_action t
                then ReceiveText player (getId p) (talk t) tmp1 (getId (speaker t))
                else ReceiveText player (getId p) (talk t) (pfx @ tmp1) (getId (speaker t)))
                 # tellPlayers env t tmp1 ps))"

definition tellNpc :: "TalkEnv \<Rightarrow> TalkCall \<Rightarrow> NPC \<Rightarrow> Event" where
  "tellNpc env t n =
     ReceiveText npc (getId n) (talk t)
       (languagePrefix (getActiveLanguage (speaker t)) @
          alterSpokenMessage env n (english t)
            (getLanguageSkill env n (getActiveLanguage (speaker t))))
       (getId (speaker t))"

definition tellMonster :: "TalkCall \<Rightarrow> Monster \<Rightarrow> Event" where
  "tellMonster t m = ReceiveText monster (getId m) (talk t) (english t) (getId (speaker t))"

text \<open>
  \<^verbatim>\<open>World::sendMessageToAllCharsInRange\<close> with two texts (lines 146-201): the calls of
  \<^verbatim>\<open>receiveText\<close> it makes, in order.
\<close>

definition sendMessageToAllCharsInRange :: "TalkEnv \<Rightarrow> TalkCall \<Rightarrow> World \<Rightarrow> Event list" where
  "sendMessageToAllCharsInRange env t w =
     (let range = getTalkRange (defaultRange env) (talk t);
          cc = speaker t;
          tempMessage =
            (if \<not> is_action t then
               (case playerChatScript env of
                  Some s \<Rightarrow>
                    if getType cc = player \<and> is_same t
                    then beforeSendText s cc (talk t) (german t) else ''''
                | None \<Rightarrow> '''')
             else '''')
      in tellPlayers env t tempMessage
           (findAllCharactersInRangeOf (planarMetric env) (Players w) (getPosition cc) range) @
         (if getType cc = player then
            map (tellNpc env t)
              (findAllCharactersInRangeOf (planarMetric env) (Npc w) (getPosition cc) range) @
            map (tellMonster t)
              (findAllCharactersInRangeOf (planarMetric env) (Monsters w) (getPosition cc) range)
          else []))"

text \<open>The listeners of a list of calls that are NPCs or monsters.\<close>

fun heardByNpcOrMonster :: "Event \<Rightarrow> bool" where
  "heardByNpcOrMonster (ReceiveText k i tt s src) = (k = npc \<or> k = monster)"
| "heardByNpcOrMonster e = False"

text \<open>
  The characters on which a list of calls makes \<^verbatim>\<open>receiveText\<close>, by kind and id, in the
  order of the calls.
\<close>

fun listener :: "Event \<Rightarrow> (character_type \<times> nat) list" where
  "listener (ReceiveText k i tt s src) = [(k, i)]"
| "listener e = []"

definition listeners :: "Event list \<Rightarrow> (character_type \<times> nat) list" where
  "listeners es = concat (map listener es)"

section \<open>Loading the spawn points\<close>

text \<open>The columns of a row of the table \<^verbatim>\<open>spawnpoint\<close>, as the query selects them.\<close>

record SpawnRow =
  spp_id :: nat
  spp_x :: int
  spp_y :: int
  spp_z :: int
  spp_range :: int
  spp_spawnrange :: nat
  spp_minspawntime :: nat
  spp_maxspawntime :: nat
  spp_spawnall :: bool

text \<open>
  The body of the loop over the rows up to \<^verbatim>\<open>newSpawn.load(spawnId)\<close> (lines 306-317);
  \<open>ld\<close> gives the monster types that \<^verbatim>\<open>SpawnPoint::load\<close> reads for a spawn id.
\<close>

definition newSpawn :: "(nat \<Rightarrow> (nat \<times> int) list) \<Rightarrow> SpawnRow \<Rightarrow> SpawnPoint" where
  "newSpawn ld row =
     \<lparr>spawnPos = Position (spp_x row) (spp_y row) (spp_z row), getRange = spp_range row,
      spawnrange = spp_spawnrange row, min_spawntime = spp_minspawntime row,
      max_spawntime = spp_maxspawntime row, spawnall = spp_spawnall row,
      SpawnTypes = ld (spp_id row)\<rparr>"

text \<open>
  The loop over the rows inside the \<^verbatim>\<open>try\<close> block (lines 305-320, 326-330). Reading the
  columns of a row with \<^verbatim>\<open>as<T>()\<close> can throw; a row is \<open>Inl what\<close> when it does and
  \<open>Inr\<close> of its columns otherwise. The exception leaves the loop for the \<^verbatim>\<open>catch\<close>, which
  logs the error and returns false.
\<close>

fun loadRows ::
  "(nat \<Rightarrow> (nat \<times> int) list) \<Rightarrow> (string + SpawnRow) list \<Rightarrow> World \<Rightarrow> bool \<times> World" where
  "loadRows ld [] w = (True, w)"
| "loadRows ld (Inl what # rows) w =
     (False, emit [LogError (''got exception in load SpawnPoints: '' @ what)] w)"
| "loadRows ld (Inr row # rows) w =
     loadRows ld rows
       (emit [LogDebug ''added spawnpoint'']
          ((emit [LogDebug ''load spawnpoint''] w)
             \<lparr>SpawnList := SpawnList w @ [newSpawn ld row]\<rparr>))"

text \<open>
  \<^verbatim>\<open>World::initRespawns\<close> (lines 278-332). \<open>res\<close> is what \<^verbatim>\<open>query.execute()\<close> does: it
  throws (\<open>Inl what\<close>) or returns rows.
\<close>

definition initRespawns ::
  "(nat \<Rightarrow> (nat \<times> int) list) \<Rightarrow> string + (string + SpawnRow) list \<Rightarrow> World \<Rightarrow> bool \<times> World" where
  "initRespawns ld res w =
     (let w1 = w\<lparr>Monsters := map (\<lambda>m. m\<lparr>getSpawn := None\<rparr>) (Monsters w),
                 events := events w @ map (\<lambda>m. RemoveMonster (getId m)) (Monsters w)\<rparr>;
          w2 = w1\<lparr>SpawnList := []\<rparr>
      in case res of
           Inl what \<Rightarrow> (False, emit [LogError (''got exception in load SpawnPoints: '' @ what)] w2)
         | Inr rows \<Rightarrow> if rows \<noteq> [] then loadRows ld rows w2 else (False, w2))"

text \<open>The rows that are read before the first one that throws, and what it throws.\<close>

fun rowsRead :: "(string + SpawnRow) list \<Rightarrow> SpawnRow list" where
  "rowsRead [] = []"
| "rowsRead (Inl what # rows) = []"
| "rowsRead (Inr row # rows) = row # rowsRead rows"

fun rowsFault :: "(string + SpawnRow) list \<Rightarrow> string option" where
  "rowsFault [] = None"
| "rowsFault (Inl what # rows) = Some what"
| "rowsFault (Inr row # rows) = rowsFault rows"

section \<open>Example inputs\<close>

definition ex_weapons :: WeaponObjectTable where
  "ex_weapons = [5 \<mapsto> \<lparr>weapon_Range = 3\<rparr>, 6 \<mapsto> \<lparr>weapon_Range = 7\<rparr>]"

definition ex_spawn :: SpawnPoint where
  "ex_spawn = \<lparr>spawnPos = Position 10 10 0, getRange = 2, spawnrange = 1, min_spawntime = 1,
     max_spawntime = 2, spawnall = False, SpawnTypes = []\<rparr>"

text \<open>A live monster of type 1 with an id, a position and the items of its two hands.\<close>

definition ex_monster :: "nat \<Rightarrow> position \<Rightarrow> item_id \<Rightarrow> item_id \<Rightarrow> Monster" where
  "ex_monster i pos l r =
     \<lparr>getId = i, getType = monster, getPosition = pos, isAlive = True, getActiveLanguage = 0,
      getMonsterType = 1,
      GetItemAt = (\<lambda>s. case s of LEFT_TOOL \<Rightarrow> \<lparr>item_getId = l\<rparr> | RIGHT_TOOL \<Rightarrow> \<lparr>item_getId = r\<rparr>),
      getSpawn = Some ex_spawn\<rparr>"

text \<open>A step of one tile in a compass direction, for \<^verbatim>\<open>position::move\<close>.\<close>

definition ex_move :: "position \<Rightarrow> direction \<Rightarrow> position" where
  "ex_move p d = Position (pos_x p + dir_dx d) (pos_y p + dir_dy d) (pos_z p)"

text \<open>One action point every 100 ms, and a member \<^verbatim>\<open>ap\<close> of 32 bits.\<close>

definition ex_tuning :: tuningConstants where
  "ex_tuning = \<lparr>MIN_AP_UPDATE = 100, CLIENT_TIMEOUT = 60, AP_BITS = 32\<rparr>"

text \<open>An online player who speaks language 1 and whose last keepalive came at second 95.\<close>

definition ex_player :: "nat \<Rightarrow> position \<Rightarrow> bool \<Rightarrow> Player" where
  "ex_player i pos alive =
     \<lparr>getId = i, getType = player, getPosition = pos, isAlive = alive,
      getActiveLanguage = 1, online = True, lastkeepalive = 95\<rparr>"

definition ex_npc :: "nat \<Rightarrow> position \<Rightarrow> NPC" where
  "ex_npc i pos =
     \<lparr>getId = i, getType = npc, getPosition = pos, isAlive = True, getActiveLanguage = 0,
      hasScript = True\<rparr>"

text \<open>
  A world created at second 1 with one player, one monster, one NPC and one spawn point,
  and a cycle at second 100 of the keepalive clock in which the spawn point creates the
  monster 20.
\<close>

definition ex_world :: World where
  "ex_world =
     (World_new 1 0)\<lparr>Players := [ex_player 1 (Position 0 0 0) True],
       Monsters := [ex_monster 7 (Position 5 5 0) 0 0],
       Npc := [ex_npc 9 (Position 0 1 0)], SpawnList := [ex_spawn]\<rparr>"

definition ex_input :: CycleInput where
  "ex_input =
     \<lparr>tempkeepalive = 100, monstertimer_next = True, isSpawnEnabled = True,
      spawn_creates = (\<lambda>sp. [ex_monster 20 (spawnPos sp) 0 0])\<rparr>"

text \<open>
  A world with three players (one of them a layer higher, one of them dead), two monsters
  of the same type on neighbouring tiles and one NPC.
\<close>

definition ex_arena :: World where
  "ex_arena =
     (World_new 1 0)\<lparr>Players := [ex_player 2 (Position 0 1 0) True, ex_player 3 (Position 0 1 1) True,
                                ex_player 4 (Position 1 1 0) False],
       Monsters := [ex_monster 7 (Position 0 0 0) 0 0, ex_monster 8 (Position 1 0 0) 0 0],
       Npc := [ex_npc 9 (Position 0 2 0)]\<rparr>"

text \<open>
  Talking without a chat script: every listener understands English, and a range that is
  not set explicitly reaches two layers up and down.
\<close>

definition ex_env :: TalkEnv where
  "ex_env =
     \<lparr>playerChatScript = None, nls = (\<lambda>p g e. e), getLanguageSkill = (\<lambda>n l. 100),
      alterSpokenMessage = (\<lambda>n s k. s), defaultRange = \<lparr>radius = 0, zRadius = 2\<rparr>,
      planarMetric = planar_max\<rparr>"

definition ex_call :: "Character \<Rightarrow> TalkCall" where
  "ex_call c = \<lparr>german = ''hallo'', english = ''hello'', is_same = False, talk = tt_whisper,
     speaker = c\<rparr>"

definition ex_row :: "nat \<Rightarrow> SpawnRow" where
  "ex_row i = \<lparr>spp_id = i, spp_x = 10, spp_y = 10, spp_z = 0, spp_range = 2, spp_spawnrange = 1,
     spp_minspawntime = 1, spp_maxspawntime = 2, spp_spawnall = False\<rparr>"

section \<open>Theorems: the attack range of a monster\<close>

text \<open>
  Claim C9. The attack range of a monster is the range of the weapon data of its
  right-tool item when the table has an entry for it; otherwise the range of the weapon
  data of its left-tool item when the table has an entry for that; otherwise, with no
  entry for either item, the melee range 1. Both places of \<^verbatim>\<open>checkMonsters\<close> that
  determine the range run the same statements.
\<close>

theorem monsterAttackRange_cases:
  "(\<forall>ws. WeaponItems (item_getId (GetItemAt m RIGHT_TOOL)) = Some ws
      \<longrightarrow> monsterAttackRange WeaponItems m = weapon_Range ws) \<and>
   (\<forall>ws. \<not> table_exists WeaponItems (item_getId (GetItemAt m RIGHT_TOOL)) \<and>
         WeaponItems (item_getId (GetItemAt m LEFT_TOOL)) = Some ws
      \<longrightarrow> monsterAttackRange WeaponItems m = weapon_Range ws) \<and>
   (\<not> table_exists WeaponItems (item_getId (GetItemAt m RIGHT_TOOL)) \<and>
    \<not> table_exists WeaponItems (item_getId (GetItemAt m LEFT_TOOL))
      \<longrightarrow> monsterAttackRange WeaponItems m = 1)"
  by (simp add: monsterAttackRange_def table_exists_def table_at_def)

text \<open>
  A table with entries for the items 5 and 6: a monster that holds both, one that holds
  only item 6 in its left hand, and one with empty hands.
\<close>

theorem monsterAttackRange_cases_witness:
  "ex_weapons (item_getId (GetItemAt (ex_monster 1 (Position 0 0 0) 6 5) RIGHT_TOOL))
     = Some \<lparr>weapon_Range = 3\<rparr> \<and>
   monsterAttackRange ex_weapons (ex_monster 1 (Position 0 0 0) 6 5) = 3 \<and>
   \<not> table_exists ex_weapons (item_getId (GetItemAt (ex_monster 1 (Position 0 0 0) 6 0) RIGHT_TOOL)) \<and>
   ex_weapons (item_getId (GetItemAt (ex_monster 1 (Position 0 0 0) 6 0) LEFT_TOOL))
     = Some \<lparr>weapon_Range = 7\<rparr> \<and>
   monsterAttackRange ex_weapons (ex_monster 1 (Position 0 0 0) 6 0) = 7 \<and>
   \<not> table_exists ex_weapons (item_getId (GetItemAt (ex_monster 1 (Position 0 0 0) 0 0) RIGHT_TOOL)) \<and>
   \<not> table_exists ex_weapons (item_getId (GetItemAt (ex_monster 1 (Position 0 0 0) 0 0) LEFT_TOOL)) \<and>
   monsterAttackRange ex_weapons (ex_monster 1 (Position 0 0 0) 0 0) = 1"
proof -
  have r: "ex_weapons (item_getId (GetItemAt (ex_monster 1 (Position 0 0 0) 6 5) RIGHT_TOOL))
     = Some \<lparr>weapon_Range = 3\<rparr>"
    by (simp add: ex_weapons_def ex_monster_def)
  have l: "\<not> table_exists ex_weapons (item_getId (GetItemAt (ex_monster 1 (Position 0 0 0) 6 0) RIGHT_TOOL)) \<and>
      ex_weapons (item_getId (GetItemAt (ex_monster 1 (Position 0 0 0) 6 0) LEFT_TOOL))
        = Some \<lparr>weapon_Range = 7\<rparr>"
    by (simp add: ex_weapons_def ex_monster_def table_exists_def)
  have n: "\<not> table_exists ex_weapons (item_getId (GetItemAt (ex_monster 1 (Position 0 0 0) 0 0) RIGHT_TOOL)) \<and>
    \<not> table_exists ex_weapons (item_getId (GetItemAt (ex_monster 1 (Position 0 0 0) 0 0) LEFT_TOOL))"
    by (simp add: ex_weapons_def ex_monster_def table_exists_def)
  from monsterAttackRange_cases [of ex_weapons "ex_monster 1 (Position 0 0 0) 6 5"] r
  have 1: "monsterAttackRange ex_weapons (ex_monster 1 (Position 0 0 0) 6 5) = 3"
    by simp
  from monsterAttackRange_cases [of ex_weapons "ex_monster 1 (Position 0 0 0) 6 0"] l
  have 2: "monsterAttackRange ex_weapons (ex_monster 1 (Position 0 0 0) 6 0) = 7"
    by simp
  from monsterAttackRange_cases [of ex_weapons "ex_monster 1 (Position 0 0 0) 0 0"] n
  have 3: "monsterAttackRange ex_weapons (ex_monster 1 (Position 0 0 0) 0 0) = 1"
    by blast
  from r l n 1 2 3 show ?thesis by blast
qed

section \<open>Theorems: the random step at the border of the spawn area\<close>

lemma mirror_x_components:
  "dir_dx (mirror_x d) = - dir_dx d \<and> dir_dy (mirror_x d) = dir_dy d"
  by (cases d) simp_all

lemma mirror_y_components:
  "dir_dx (mirror_y d) = dir_dx d \<and> dir_dy (mirror_y d) = - dir_dy d"
  by (cases d) simp_all

lemma direction_by_components:
  "dir_dx d = dir_dx e \<Longrightarrow> dir_dy d = dir_dy e \<Longrightarrow> d = e"
  by (cases d; cases e) simp_all

text \<open>
  Claim C5. For a monster with a spawn point that takes a random step in direction
  \<open>dir\<close>: when the x-offset of the candidate position from the spawn centre exceeds the
  spawn range, the x-component of the direction is reflected (northeast and northwest,
  east and west, southeast and southwest change places); after that, and judged on the
  same candidate position, the y-component is reflected when the y-offset exceeds the
  range. A component on an axis that does not overflow stays, and a direction with no
  component on the overflowing axis is unchanged.
\<close>

theorem randomStepDirection_reflects:
  assumes "getSpawn m = Some sp"
  shows "dir_dx (randomStepDirection move m dir) =
           (if x_overflows sp (move (getPosition m) dir) then - dir_dx dir else dir_dx dir) \<and>
         dir_dy (randomStepDirection move m dir) =
           (if y_overflows sp (move (getPosition m) dir) then - dir_dy dir else dir_dy dir) \<and>
         randomStepDirection move m dir =
           (let dir1 = (if x_overflows sp (move (getPosition m) dir) then mirror_x dir else dir)
            in if y_overflows sp (move (getPosition m) dir) then mirror_y dir1 else dir1) \<and>
         mirror_x dir_northeast = dir_northwest \<and> mirror_x dir_northwest = dir_northeast \<and>
         mirror_x dir_east = dir_west \<and> mirror_x dir_west = dir_east \<and>
         mirror_x dir_southeast = dir_southwest \<and> mirror_x dir_southwest = dir_southeast \<and>
         mirror_x dir_north = dir_north \<and> mirror_x dir_south = dir_south \<and>
         mirror_y dir_east = dir_east \<and> mirror_y dir_west = dir_west"
  using assms
  by (simp add: randomStepDirection_def x_overflows_def y_overflows_def get_x_def get_y_def
      Let_def mirror_x_components mirror_y_components)

text \<open>
  A spawn point at (10, 10) with range 2. From (12, 8) the step to the northeast leaves
  the area on both axes and becomes a step to the southwest; from (12, 9) it leaves on
  the x-axis only and becomes a step to the northwest; a step to the north stays.
\<close>

theorem randomStepDirection_reflects_witness:
  "getSpawn (ex_monster 1 (Position 12 8 0) 0 0) = Some ex_spawn \<and>
   x_overflows ex_spawn (ex_move (Position 12 8 0) dir_northeast) \<and>
   y_overflows ex_spawn (ex_move (Position 12 8 0) dir_northeast) \<and>
   randomStepDirection ex_move (ex_monster 1 (Position 12 8 0) 0 0) dir_northeast = dir_southwest \<and>
   \<not> y_overflows ex_spawn (ex_move (Position 12 9 0) dir_northeast) \<and>
   randomStepDirection ex_move (ex_monster 1 (Position 12 9 0) 0 0) dir_northeast = dir_northwest \<and>
   randomStepDirection ex_move (ex_monster 1 (Position 12 9 0) 0 0) dir_north = dir_north"
proof -
  have s: "\<And>i p. getSpawn (ex_monster i p 0 0) = Some ex_spawn"
    by (simp add: ex_monster_def)
  have p: "\<And>i p. getPosition (ex_monster i p 0 0) = p"
    by (simp add: ex_monster_def)
  have o: "x_overflows ex_spawn (ex_move (Position 12 8 0) dir_northeast) \<and>
   y_overflows ex_spawn (ex_move (Position 12 8 0) dir_northeast) \<and>
   \<not> y_overflows ex_spawn (ex_move (Position 12 9 0) dir_northeast) \<and>
   x_overflows ex_spawn (ex_move (Position 12 9 0) dir_northeast) \<and>
   \<not> y_overflows ex_spawn (ex_move (Position 12 9 0) dir_north) \<and>
   \<not> x_overflows ex_spawn (ex_move (Position 12 9 0) dir_north)"
    by (simp add: x_overflows_def y_overflows_def ex_spawn_def ex_move_def)
  from randomStepDirection_reflects [where m = "ex_monster 1 (Position 12 8 0) 0 0" and sp = ex_spawn and move = ex_move and dir = dir_northeast, OF s] o
  have 1: "randomStepDirection ex_move (ex_monster 1 (Position 12 8 0) 0 0) dir_northeast = dir_southwest"
    by (simp add: p)
  from randomStepDirection_reflects [where m = "ex_monster 1 (Position 12 9 0) 0 0" and sp = ex_spawn and move = ex_move and dir = dir_northeast, OF s] o
  have 2: "randomStepDirection ex_move (ex_monster 1 (Position 12 9 0) 0 0) dir_northeast = dir_northwest"
    by (simp add: p)
  from randomStepDirection_reflects [where m = "ex_monster 1 (Position 12 9 0) 0 0" and sp = ex_spawn and move = ex_move and dir = dir_north, OF s] o
  have 3: "randomStepDirection ex_move (ex_monster 1 (Position 12 9 0) 0 0) dir_north = dir_north"
    by (simp add: p)
  from s o 1 2 3 show ?thesis by blast
qed

section \<open>Theorems: the tick governor\<close>

lemma aligned_div:
  assumes "g dvd s"
  shows "int (a div g) - int (s div g) = (int a - int s) div int g"
proof (cases "g = 0")
  case True
  with assms show ?thesis by simp
next
  case False
  from assms obtain k where k: "s = g * k" ..
  have "(int a - int s) div int g = (int a + (- int k) * int g) div int g"
    by (simp add: k mult.commute)
  also have "\<dots> = - int k + int a div int g"
    using False by (subst div_mult_self1) simp_all
  also have "\<dots> = int (a div g) - int (s div g)"
    using False by (simp add: k zdiv_int)
  finally show ?thesis by simp
qed

lemma fold_spawn_spawn:
  "fold (spawn_spawn inp) sps w =
     w\<lparr>newMonsters := newMonsters w @ concat (map (spawn_creates inp) sps)\<rparr>"
  by (induction sps arbitrary: w) (simp_all add: spawn_spawn_def)

lemma fold_killMonster:
  "fold killMonster ids w =
     w\<lparr>Monsters := filter (\<lambda>m. getId m \<notin> set ids) (Monsters w),
       events := events w @ map KillMonster ids\<rparr>"
proof (induction ids arbitrary: w)
  case Nil
  show ?case by simp
next
  case (Cons i ids)
  have "fold killMonster (i # ids) w = fold killMonster ids (killMonster i w)"
    by simp
  also have "\<dots> = (killMonster i w)
      \<lparr>Monsters := filter (\<lambda>m. getId m \<notin> set ids) (Monsters (killMonster i w)),
       events := events (killMonster i w) @ map KillMonster ids\<rparr>"
    by (rule Cons.IH)
  also have "\<dots> = w\<lparr>Monsters := filter (\<lambda>m. getId m \<notin> set (i # ids)) (Monsters w),
       events := events w @ map KillMonster (i # ids)\<rparr>"
    by (simp add: killMonster_def filter_filter cong: conj_cong)
  finally show ?case .
qed

lemma fold_commitMonster:
  "fold commitMonster ms w =
     w\<lparr>Monsters := Monsters w @ ms,
       events := events w @ map (\<lambda>m. SendCharacterMove (getId m)) ms\<rparr>"
proof (induction ms arbitrary: w)
  case Nil
  show ?case by simp
next
  case (Cons m ms)
  have "fold commitMonster (m # ms) w = fold commitMonster ms (commitMonster m w)"
    by simp
  also have "\<dots> = (commitMonster m w)
      \<lparr>Monsters := Monsters (commitMonster m w) @ ms,
       events := events (commitMonster m w) @ map (\<lambda>m. SendCharacterMove (getId m)) ms\<rparr>"
    by (rule Cons.IH)
  also have "\<dots> = w\<lparr>Monsters := Monsters w @ m # ms,
       events := events w @ map (\<lambda>m. SendCharacterMove (getId m)) (m # ms)\<rparr>"
    by (simp add: commitMonster_def Monsters_insert_def emit_def)
  finally show ?case .
qed

lemma spawnMonsters_eq:
  "spawnMonsters inp w =
     w\<lparr>newMonsters := newMonsters w @ spawnedNow inp w,
       events := events w @
         (if monstertimer_next inp \<and> \<not> isSpawnEnabled inp
          then [LogInfo ''World::checkMonsters() spawning disabled!''] else [])\<rparr>"
  by (simp add: spawnMonsters_def spawnedNow_def fold_spawn_spawn emit_def)

lemma checkMonsters_eq:
  "checkMonsters inp w =
     w\<lparr>ap := (if ap w > 1 then ap w - 1 else ap w),
       Monsters := filter (\<lambda>m. getId m \<notin> set (map getId (deadMonsters w))) (Monsters w) @
                   newMonsters w @ spawnedNow inp w,
       newMonsters := [],
       events := events w @
         (if monstertimer_next inp \<and> \<not> isSpawnEnabled inp
          then [LogInfo ''World::checkMonsters() spawning disabled!''] else []) @
         concat (map (monsterTurn (if ap w > 1 then ap w - 1 else ap w)) (Monsters w)) @
         map KillMonster (map getId (deadMonsters w)) @
         map (\<lambda>m. SendCharacterMove (getId m)) (newMonsters w @ spawnedNow inp w)\<rparr>"
  by (simp add: checkMonsters_def commitNewMonsters_def fold_commitMonster
      checkMonsters_scan_def Let_def fold_killMonster visitMonsters_def emit_def
      decrementAP_def spawnMonsters_eq deadMonsters_def)

lemma turntheworld_idle:
  "tickBudget c now w \<le> 0 \<Longrightarrow> turntheworld c inp now w = w\<lparr>ap := tickBudget c now w\<rparr>"
  by (simp add: turntheworld_def Let_def)

lemma turntheworld_fire:
  assumes "0 < tickBudget c now w"
  shows "turntheworld c inp now w =
     w\<lparr>ap := (if tickBudget c now w > 1 then tickBudget c now w - 1 else tickBudget c now w),
       usedAP := nat (int (usedAP w) + tickBudget c now w),
       Players := filter (\<lambda>p. getId p \<notin> set (map getId (filter (\<lambda>p. \<not> online p) (Players w))))
                    (Players w),
       Monsters := filter (\<lambda>m. getId m \<notin> set (map getId (deadMonsters w))) (Monsters w) @
                   newMonsters w @ spawnedNow inp w,
       newMonsters := [],
       events := events w @ [StartTimer ''cycle player''] @
         concat (map (playerTurn c (tempkeepalive inp) (tickBudget c now w)) (Players w)) @
         [StopTimer ''cycle player'', StartTimer ''cycle monster''] @
         ((if monstertimer_next inp \<and> \<not> isSpawnEnabled inp
           then [LogInfo ''World::checkMonsters() spawning disabled!''] else []) @
          concat (map (monsterTurn (if tickBudget c now w > 1 then tickBudget c now w - 1
                                    else tickBudget c now w)) (Monsters w)) @
          map KillMonster (map getId (deadMonsters w)) @
          map (\<lambda>m. SendCharacterMove (getId m)) (newMonsters w @ spawnedNow inp w)) @
         [StopTimer ''cycle monster'', StartTimer ''cycle npc''] @
         (DeleteAllLostNPC #
          concat (map (npcTurn (if tickBudget c now w > 1 then tickBudget c now w - 1
                                else tickBudget c now w)) (Npc w))) @
         [StopTimer ''cycle npc'']\<rparr>"
  using assms
  by (simp add: turntheworld_def Let_def checkMonsters_eq checkPlayers_def checkNPC_def emit_def
      deadMonsters_def spawnedNow_def)

lemma timeStart_turntheworld: "timeStart (turntheworld c inp now w) = timeStart w"
proof (cases "0 < tickBudget c now w")
  case True
  then show ?thesis by (simp add: turntheworld_fire)
next
  case False
  then show ?thesis by (simp add: turntheworld_idle)
qed

lemma World_new_aligned:
  "MIN_AP_UPDATE c dvd 1000 \<Longrightarrow> MIN_AP_UPDATE c dvd timeStart (World_new starttime ap0)"
  by (simp add: World_new_def)

lemma grants_append [simp]: "grants (xs @ ys) = grants xs @ grants ys"
  by (simp add: grants_def)

lemma grants_Cons [simp]: "grants (e # es) = grant e @ grants es"
  by (simp add: grants_def)

lemma grants_Nil [simp]: "grants [] = []"
  by (simp add: grants_def)

lemma grants_concat_map: "grants (concat (map f xs)) = concat (map (\<lambda>x. grants (f x)) xs)"
  by (induction xs) simp_all

lemma grants_KillMonster [simp]: "grants (map KillMonster ids) = []"
  by (induction ids) simp_all

lemma grants_KillMonster_comp [simp]: "grants (map (KillMonster \<circ> f) ms) = []"
  by (induction ms) simp_all

lemma grants_SendCharacterMove [simp]: "grants (map (\<lambda>m. SendCharacterMove (f m)) ms) = []"
  by (induction ms) simp_all

lemma grants_playerTurn:
  "grants (playerTurn c tk a p) =
     (if online p \<and> 0 \<le> tk - lastkeepalive p \<and> tk - lastkeepalive p \<le> CLIENT_TIMEOUT c
      then [(player, getId p, a), (player, getId p, a)] else [])"
  by (simp add: playerTurn_def Let_def)

lemma grants_monsterTurn:
  "grants (monsterTurn a m) =
     (if isAlive m then [(monster, getId m, a), (monster, getId m, a)] else [])"
  by (simp add: monsterTurn_def)

lemma grants_npcTurn:
  "grants (npcTurn a n) = (if isAlive n then [(npc, getId n, a)] else [])"
  by (simp add: npcTurn_def)

lemma set_grants_players:
  "set (grants (concat (map (playerTurn c tk a) ps))) =
     {(player, getId p, a) | p. p \<in> set ps \<and> online p \<and> 0 \<le> tk - lastkeepalive p \<and>
        tk - lastkeepalive p \<le> CLIENT_TIMEOUT c}"
  by (auto simp: grants_concat_map grants_playerTurn split: if_splits)

lemma set_grants_monsters:
  "set (grants (concat (map (monsterTurn a) ms))) =
     {(monster, getId m, a) | m. m \<in> set ms \<and> isAlive m}"
  by (auto simp: grants_concat_map grants_monsterTurn split: if_splits)

lemma set_grants_npcs:
  "set (grants (concat (map (npcTurn a) ns))) = {(npc, getId n, a) | n. n \<in> set ns \<and> isAlive n}"
  by (auto simp: grants_concat_map grants_npcTurn split: if_splits)

lemma no_timer_playerTurn: "e \<in> set (playerTurn c tk a p) \<Longrightarrow> \<not> isTimer e"
  by (auto simp: playerTurn_def Let_def split: if_splits)

lemma no_timer_monsterTurn: "e \<in> set (monsterTurn a m) \<Longrightarrow> \<not> isTimer e"
  by (auto simp: monsterTurn_def split: if_splits)

lemma no_timer_npcTurn: "e \<in> set (npcTurn a n) \<Longrightarrow> \<not> isTimer e"
  by (auto simp: npcTurn_def split: if_splits)

lemma fired_grants_positive:
  assumes "0 < tickBudget c now w"
  shows "\<forall>g \<in> set (grants (drop (length (events w)) (events (turntheworld c inp now w)))).
           0 < snd (snd g)"
  using assms
  by (auto simp: turntheworld_fire [OF assms] set_grants_players set_grants_monsters
      set_grants_npcs split: if_splits)

lemma ex_world_fields:
  "Players ex_world = [ex_player 1 (Position 0 0 0) True]"
  "Monsters ex_world = [ex_monster 7 (Position 5 5 0) 0 0]"
  "Npc ex_world = [ex_npc 9 (Position 0 1 0)]" "events ex_world = []"
  "newMonsters ex_world = []" "usedAP ex_world = 0" "timeStart ex_world = 1000"
  "CLIENT_TIMEOUT ex_tuning = 60" "MIN_AP_UPDATE ex_tuning = 100" "tempkeepalive ex_input = 100"
  "AP_BITS ex_tuning = 32"
  by (simp_all add: ex_world_def World_new_def ex_tuning_def ex_input_def)

lemma ex_budget: "tickBudget ex_tuning (Timeb 1 250) ex_world = 2"
  by (simp add: tickBudget_def budgetExpr_def to_ap_def timeNow_def ex_tuning_def ex_world_def
      World_new_def)

lemma ex_spawnedNow:
  "spawnedNow ex_input ex_world = [ex_monster 20 (Position 10 10 0) 0 0]"
  by (simp add: spawnedNow_def ex_input_def ex_world_def ex_spawn_def)

lemma ex_cycle_events:
  "events (turntheworld ex_tuning ex_input (Timeb 1 250) ex_world) =
     [StartTimer ''cycle player'',
      IncreaseActionPoints player 1 2, IncreaseFightPoints player 1 2, WorkoutCommands 1,
      CheckFightMode 1, CheckAction 1, CheckEffects player 1,
      StopTimer ''cycle player'', StartTimer ''cycle monster'',
      IncreaseActionPoints monster 7 1, IncreaseFightPoints monster 7 1,
      CheckEffects monster 7, MonsterDecision 7, SendCharacterMove 20,
      StopTimer ''cycle monster'', StartTimer ''cycle npc'',
      DeleteAllLostNPC, IncreaseActionPoints npc 9 1, CheckEffects npc 9, NpcCycle 9,
      StopTimer ''cycle npc'']"
proof -
  have pos: "0 < tickBudget ex_tuning (Timeb 1 250) ex_world"
    by (simp add: ex_budget)
  have "events (turntheworld ex_tuning ex_input (Timeb 1 250) ex_world) =
     [StartTimer ''cycle player''] @
     playerTurn ex_tuning (tempkeepalive ex_input) 2 (ex_player 1 (Position 0 0 0) True) @
     [StopTimer ''cycle player'', StartTimer ''cycle monster''] @
     monsterTurn 1 (ex_monster 7 (Position 5 5 0) 0 0) @
     map KillMonster (map getId (filter (\<lambda>m. \<not> isAlive m) [ex_monster 7 (Position 5 5 0) 0 0])) @
     [SendCharacterMove (getId (ex_monster 20 (Position 10 10 0) 0 0))] @
     [StopTimer ''cycle monster'', StartTimer ''cycle npc'', DeleteAllLostNPC] @
     npcTurn 1 (ex_npc 9 (Position 0 1 0)) @ [StopTimer ''cycle npc'']"
    by (simp add: turntheworld_fire [OF pos] ex_budget ex_spawnedNow ex_world_fields
        deadMonsters_def) (simp add: ex_input_def)
  then show ?thesis
    by (simp add: playerTurn_def monsterTurn_def npcTurn_def ex_player_def ex_monster_def
        ex_npc_def ex_input_def ex_tuning_def)
qed

lemma to_ap_fits: "fits_ap bits v \<Longrightarrow> to_ap bits v = v"
proof -
  assume f: "fits_ap bits v"
  then obtain n where n: "bits = Suc n"
    by (cases bits) (simp_all add: fits_ap_def)
  from f have "0 \<le> v + 2 ^ n" and "v + 2 ^ n < 2 ^ Suc n"
    by (simp_all add: fits_ap_def n)
  then have "(v + 2 ^ n) mod 2 ^ Suc n = v + 2 ^ n"
    by (rule mod_pos_pos_trivial)
  then show ?thesis
    by (simp add: to_ap_def n)
qed

lemma to_ap_residue: "to_ap bits (v - to_ap bits v) \<le> 0"
proof (cases bits)
  case 0
  then show ?thesis by (simp add: to_ap_def)
next
  case (Suc n)
  have "v - to_ap bits v = v + 2 ^ n - (v + 2 ^ n) mod 2 ^ Suc n"
    by (simp add: to_ap_def Suc)
  also have "\<dots> = 2 ^ Suc n * ((v + 2 ^ n) div 2 ^ Suc n)"
    by (simp add: minus_mod_eq_mult_div)
  finally have "to_ap bits (v - to_ap bits v) =
      (2 ^ n + 2 ^ Suc n * ((v + 2 ^ n) div 2 ^ Suc n)) mod 2 ^ Suc n - 2 ^ n"
    by (simp add: to_ap_def Suc add.commute)
  also have "\<dots> = (2 ^ n) mod 2 ^ Suc n - (2 ^ n :: int)"
    by (simp only: mod_mult_self2)
  also have "\<dots> = 0"
    by simp
  finally show ?thesis by simp
qed

text \<open>
  Claim C1. Let the start time of the world be the one that the constructor set, whole
  seconds times 1000, and let \<^verbatim>\<open>MIN_AP_UPDATE\<close> divide 1000. On every call of
  \<^verbatim>\<open>turntheworld\<close> the action points that line 181 leaves in \<^verbatim>\<open>ap\<close> are
  \<open>floor (elapsed / granularity) - consumed\<close>, with \<open>elapsed\<close> the clock in milliseconds
  minus the start time, converted to the type of \<^verbatim>\<open>ap\<close>; they are exactly that value
  whenever it fits the type. The call leaves the start time as it is, so the same holds
  at the next call. When the action points are positive the counter grows by exactly
  their value and every grant of the cycle is positive; when they are not positive the
  call changes nothing but the member \<^verbatim>\<open>ap\<close>, so no phase runs.
\<close>

theorem turntheworld_budget:
  assumes "0 < MIN_AP_UPDATE c"
    and "MIN_AP_UPDATE c dvd 1000"
    and "timeStart w = timeStart (World_new starttime ap0)"
  shows "tickBudget c now w =
           to_ap (AP_BITS c)
             ((int (timeNow now) - int (timeStart w)) div int (MIN_AP_UPDATE c) - int (usedAP w)) \<and>
         (fits_ap (AP_BITS c)
             ((int (timeNow now) - int (timeStart w)) div int (MIN_AP_UPDATE c) - int (usedAP w)) \<longrightarrow>
            tickBudget c now w =
              (int (timeNow now) - int (timeStart w)) div int (MIN_AP_UPDATE c) - int (usedAP w)) \<and>
         timeStart (turntheworld c inp now w) = timeStart (World_new starttime ap0) \<and>
         (0 < tickBudget c now w \<longrightarrow>
            int (usedAP (turntheworld c inp now w)) = int (usedAP w) + tickBudget c now w \<and>
            (\<forall>g \<in> set (grants (drop (length (events w)) (events (turntheworld c inp now w)))).
               0 < snd (snd g))) \<and>
         (tickBudget c now w \<le> 0 \<longrightarrow>
            turntheworld c inp now w = w\<lparr>ap := tickBudget c now w\<rparr>)"
proof -
  from assms(2,3) have d: "MIN_AP_UPDATE c dvd timeStart w"
    by (simp add: World_new_aligned)
  have e: "budgetExpr c now w =
      (int (timeNow now) - int (timeStart w)) div int (MIN_AP_UPDATE c) - int (usedAP w)"
    using d by (simp add: budgetExpr_def aligned_div)
  have 1: "tickBudget c now w =
           to_ap (AP_BITS c)
             ((int (timeNow now) - int (timeStart w)) div int (MIN_AP_UPDATE c) - int (usedAP w))"
    by (simp add: tickBudget_def e)
  have 2: "fits_ap (AP_BITS c)
             ((int (timeNow now) - int (timeStart w)) div int (MIN_AP_UPDATE c) - int (usedAP w)) \<longrightarrow>
            tickBudget c now w =
              (int (timeNow now) - int (timeStart w)) div int (MIN_AP_UPDATE c) - int (usedAP w)"
    by (simp add: 1 to_ap_fits)
  have 3: "0 < tickBudget c now w \<longrightarrow>
            int (usedAP (turntheworld c inp now w)) = int (usedAP w) + tickBudget c now w"
    by (simp add: turntheworld_fire)
  have 4: "0 < tickBudget c now w \<longrightarrow>
            (\<forall>g \<in> set (grants (drop (length (events w)) (events (turntheworld c inp now w)))).
               0 < snd (snd g))"
    using fired_grants_positive by blast
  have 5: "tickBudget c now w \<le> 0 \<longrightarrow>
            turntheworld c inp now w = w\<lparr>ap := tickBudget c now w\<rparr>"
    using turntheworld_idle by blast
  have 6: "timeStart (turntheworld c inp now w) = timeStart (World_new starttime ap0)"
    using assms(3) by (simp add: timeStart_turntheworld)
  from 1 2 3 4 5 6 show ?thesis by blast
qed

text \<open>
  With one action point every 100 ms, a 32-bit \<^verbatim>\<open>ap\<close> and a world started at second 1:
  250 ms later the value 2 fits, the action points are 2 and the counter becomes 2;
  50 ms after the start the action points are 0 and the world stays as it is.
\<close>

theorem turntheworld_budget_witness:
  "0 < MIN_AP_UPDATE ex_tuning \<and>
   MIN_AP_UPDATE ex_tuning dvd 1000 \<and>
   timeStart ex_world = timeStart (World_new 1 0) \<and>
   fits_ap (AP_BITS ex_tuning) ((1250 - 1000) div 100 - 0) \<and>
   tickBudget ex_tuning (Timeb 1 250) ex_world = (1250 - 1000) div 100 - 0 \<and>
   usedAP (turntheworld ex_tuning ex_input (Timeb 1 250) ex_world) = 2 \<and>
   tickBudget ex_tuning (Timeb 1 50) ex_world = 0 \<and>
   turntheworld ex_tuning ex_input (Timeb 1 50) ex_world = ex_world\<lparr>ap := 0\<rparr>"
proof -
  have g: "0 < MIN_AP_UPDATE ex_tuning"
    by (simp add: ex_tuning_def)
  have d: "MIN_AP_UPDATE ex_tuning dvd 1000"
    by (simp add: ex_tuning_def)
  have s: "timeStart ex_world = timeStart (World_new 1 0)"
    by (simp add: ex_world_def)
  have t: "timeNow (Timeb 1 250) = 1250" "timeNow (Timeb 1 50) = 1050"
    "timeStart ex_world = 1000" "usedAP ex_world = 0" "MIN_AP_UPDATE ex_tuning = 100"
    "AP_BITS ex_tuning = 32"
    by (simp_all add: timeNow_def ex_world_def World_new_def ex_tuning_def)
  have f: "fits_ap (AP_BITS ex_tuning) ((1250 - 1000) div 100 - 0)"
    "fits_ap (AP_BITS ex_tuning) ((1050 - 1000) div 100 - 0)"
    by (simp_all add: fits_ap_def t)
  from turntheworld_budget [OF g d s, of "Timeb 1 250" ex_input] f
  have 1: "tickBudget ex_tuning (Timeb 1 250) ex_world = (1250 - 1000) div 100 - 0"
    by (simp add: t)
  with turntheworld_budget [OF g d s, of "Timeb 1 250" ex_input]
  have "int (usedAP (turntheworld ex_tuning ex_input (Timeb 1 250) ex_world)) = 2"
    by (simp add: t)
  then have 2: "usedAP (turntheworld ex_tuning ex_input (Timeb 1 250) ex_world) = 2"
    by simp
  from turntheworld_budget [OF g d s, of "Timeb 1 50" ex_input] f
  have 3: "tickBudget ex_tuning (Timeb 1 50) ex_world = 0"
    by (simp add: t)
  with turntheworld_budget [OF g d s, of "Timeb 1 50" ex_input]
  have 4: "turntheworld ex_tuning ex_input (Timeb 1 50) ex_world = ex_world\<lparr>ap := 0\<rparr>"
    by simp
  from g d s f(1) 1 2 3 4 show ?thesis by blast
qed

text \<open>
  Claim C2, as the code has it. On every call of \<^verbatim>\<open>turntheworld\<close> with a positive budget
  \<open>b\<close> the calls of the cycle are, in this order and between the timers of the
  statistics, those of the player phase, of the monster phase and of the NPC phase. The
  player phase grants \<open>b\<close> to every online player whose keepalive is in time. The monster
  phase first takes one off the member \<^verbatim>\<open>ap\<close> when it is greater than 1, and grants the
  result to every live monster; the NPC phase reads the same member and grants that
  reduced budget to every live NPC.
\<close>

theorem turntheworld_phases:
  assumes "0 < tickBudget c now w"
  shows "\<exists>ep em en.
      events (turntheworld c inp now w) =
        events w @ [StartTimer ''cycle player''] @ ep @
        [StopTimer ''cycle player'', StartTimer ''cycle monster''] @ em @
        [StopTimer ''cycle monster'', StartTimer ''cycle npc''] @ en @
        [StopTimer ''cycle npc''] \<and>
      (\<forall>e \<in> set (ep @ em @ en). \<not> isTimer e) \<and>
      (\<forall>g \<in> set (grants ep). fst g = player \<and> snd (snd g) = tickBudget c now w) \<and>
      (\<forall>g \<in> set (grants em). fst g = monster \<and>
         snd (snd g) = (if tickBudget c now w > 1 then tickBudget c now w - 1
                        else tickBudget c now w)) \<and>
      (\<forall>g \<in> set (grants en). fst g = npc \<and>
         snd (snd g) = (if tickBudget c now w > 1 then tickBudget c now w - 1
                        else tickBudget c now w)) \<and>
      (\<forall>p \<in> set (Players w).
         online p \<and> 0 \<le> tempkeepalive inp - lastkeepalive p \<and>
         tempkeepalive inp - lastkeepalive p \<le> CLIENT_TIMEOUT c
         \<longrightarrow> (player, getId p, tickBudget c now w) \<in> set (grants ep)) \<and>
      (\<forall>m \<in> set (Monsters w).
         isAlive m \<longrightarrow>
         (monster, getId m, (if tickBudget c now w > 1 then tickBudget c now w - 1
                             else tickBudget c now w)) \<in> set (grants em)) \<and>
      (\<forall>n \<in> set (Npc w).
         isAlive n \<longrightarrow>
         (npc, getId n, (if tickBudget c now w > 1 then tickBudget c now w - 1
                         else tickBudget c now w)) \<in> set (grants en))"
proof -
  define b where "b = tickBudget c now w"
  define b' where "b' = (if b > 1 then b - 1 else b)"
  define ep where "ep = concat (map (playerTurn c (tempkeepalive inp) b) (Players w))"
  define em where "em =
    (if monstertimer_next inp \<and> \<not> isSpawnEnabled inp
     then [LogInfo ''World::checkMonsters() spawning disabled!''] else []) @
    concat (map (monsterTurn b') (Monsters w)) @
    map KillMonster (map getId (deadMonsters w)) @
    map (\<lambda>m. SendCharacterMove (getId m)) (newMonsters w @ spawnedNow inp w)"
  define en where "en = DeleteAllLostNPC # concat (map (npcTurn b') (Npc w))"
  have ev: "events (turntheworld c inp now w) =
        events w @ [StartTimer ''cycle player''] @ ep @
        [StopTimer ''cycle player'', StartTimer ''cycle monster''] @ em @
        [StopTimer ''cycle monster'', StartTimer ''cycle npc''] @ en @
        [StopTimer ''cycle npc'']"
    by (simp add: turntheworld_fire [OF assms] ep_def em_def en_def b_def b'_def)
  have nt: "\<forall>e \<in> set (ep @ em @ en). \<not> isTimer e"
    by (auto simp: ep_def em_def en_def dest: no_timer_playerTurn no_timer_monsterTurn
        no_timer_npcTurn)
  have gp: "set (grants ep) = {(player, getId p, b) | p. p \<in> set (Players w) \<and> online p \<and>
        0 \<le> tempkeepalive inp - lastkeepalive p \<and>
        tempkeepalive inp - lastkeepalive p \<le> CLIENT_TIMEOUT c}"
    by (simp add: ep_def set_grants_players)
  have gm: "set (grants em) = {(monster, getId m, b') | m. m \<in> set (Monsters w) \<and> isAlive m}"
    by (simp add: em_def set_grants_monsters)
  have gn: "set (grants en) = {(npc, getId n, b') | n. n \<in> set (Npc w) \<and> isAlive n}"
    by (simp add: en_def set_grants_npcs)
  have "events (turntheworld c inp now w) =
        events w @ [StartTimer ''cycle player''] @ ep @
        [StopTimer ''cycle player'', StartTimer ''cycle monster''] @ em @
        [StopTimer ''cycle monster'', StartTimer ''cycle npc''] @ en @
        [StopTimer ''cycle npc''] \<and>
      (\<forall>e \<in> set (ep @ em @ en). \<not> isTimer e) \<and>
      (\<forall>g \<in> set (grants ep). fst g = player \<and> snd (snd g) = b) \<and>
      (\<forall>g \<in> set (grants em). fst g = monster \<and> snd (snd g) = b') \<and>
      (\<forall>g \<in> set (grants en). fst g = npc \<and> snd (snd g) = b') \<and>
      (\<forall>p \<in> set (Players w).
         online p \<and> 0 \<le> tempkeepalive inp - lastkeepalive p \<and>
         tempkeepalive inp - lastkeepalive p \<le> CLIENT_TIMEOUT c
         \<longrightarrow> (player, getId p, b) \<in> set (grants ep)) \<and>
      (\<forall>m \<in> set (Monsters w). isAlive m \<longrightarrow> (monster, getId m, b') \<in> set (grants em)) \<and>
      (\<forall>n \<in> set (Npc w). isAlive n \<longrightarrow> (npc, getId n, b') \<in> set (grants en))"
    using ev nt unfolding gp gm gn by auto
  then show ?thesis
    unfolding b_def b'_def by blast
qed

text \<open>
  The example world 250 ms after its start: the budget is 2, the player is granted 2, the
  monster and the NPC are granted 1.
\<close>

theorem turntheworld_phases_witness:
  "0 < tickBudget ex_tuning (Timeb 1 250) ex_world \<and>
   (player, 1, 2) \<in> set (grants (events (turntheworld ex_tuning ex_input (Timeb 1 250) ex_world))) \<and>
   (monster, 7, 1) \<in> set (grants (events (turntheworld ex_tuning ex_input (Timeb 1 250) ex_world))) \<and>
   (npc, 9, 1) \<in> set (grants (events (turntheworld ex_tuning ex_input (Timeb 1 250) ex_world)))"
proof -
  have pos: "0 < tickBudget ex_tuning (Timeb 1 250) ex_world"
    by (simp add: ex_budget)
  from turntheworld_phases [OF pos, of ex_input]
  obtain ep em en where
    ev: "events (turntheworld ex_tuning ex_input (Timeb 1 250) ex_world) =
        events ex_world @ [StartTimer ''cycle player''] @ ep @
        [StopTimer ''cycle player'', StartTimer ''cycle monster''] @ em @
        [StopTimer ''cycle monster'', StartTimer ''cycle npc''] @ en @
        [StopTimer ''cycle npc'']"
    and p: "\<forall>p \<in> set (Players ex_world).
         online p \<and> 0 \<le> tempkeepalive ex_input - lastkeepalive p \<and>
         tempkeepalive ex_input - lastkeepalive p \<le> CLIENT_TIMEOUT ex_tuning
         \<longrightarrow> (player, getId p, tickBudget ex_tuning (Timeb 1 250) ex_world) \<in> set (grants ep)"
    and m: "\<forall>m \<in> set (Monsters ex_world).
         isAlive m \<longrightarrow>
         (monster, getId m, (if tickBudget ex_tuning (Timeb 1 250) ex_world > 1
                             then tickBudget ex_tuning (Timeb 1 250) ex_world - 1
                             else tickBudget ex_tuning (Timeb 1 250) ex_world)) \<in> set (grants em)"
    and n: "\<forall>n \<in> set (Npc ex_world).
         isAlive n \<longrightarrow>
         (npc, getId n, (if tickBudget ex_tuning (Timeb 1 250) ex_world > 1
                         then tickBudget ex_tuning (Timeb 1 250) ex_world - 1
                         else tickBudget ex_tuning (Timeb 1 250) ex_world)) \<in> set (grants en)"
    by blast
  from p have 1: "(player, 1, 2) \<in> set (grants ep)"
    by (simp add: ex_budget ex_world_fields ex_player_def)
  from m have 2: "(monster, 7, 1) \<in> set (grants em)"
    by (simp add: ex_budget ex_world_fields ex_monster_def)
  from n have 3: "(npc, 9, 1) \<in> set (grants en)"
    by (simp add: ex_budget ex_world_fields ex_npc_def)
  from pos 1 2 3 show ?thesis
    by (simp add: ev)
qed

text \<open>
  Claim C2 as the specification states it, with the same budget for the three phases,
  fails for every budget above 1. In the example world the budget is 2: the player
  receives 2, the monster and the NPC receive 1 and never 2.
\<close>

theorem phase_budget_counterexample:
  "tickBudget ex_tuning (Timeb 1 250) ex_world = 2 \<and>
   IncreaseActionPoints player 1 2
     \<in> set (events (turntheworld ex_tuning ex_input (Timeb 1 250) ex_world)) \<and>
   IncreaseActionPoints monster 7 1
     \<in> set (events (turntheworld ex_tuning ex_input (Timeb 1 250) ex_world)) \<and>
   IncreaseActionPoints monster 7 2
     \<notin> set (events (turntheworld ex_tuning ex_input (Timeb 1 250) ex_world)) \<and>
   IncreaseActionPoints npc 9 1
     \<in> set (events (turntheworld ex_tuning ex_input (Timeb 1 250) ex_world)) \<and>
   IncreaseActionPoints npc 9 2
     \<notin> set (events (turntheworld ex_tuning ex_input (Timeb 1 250) ex_world))"
  by (simp add: ex_budget ex_cycle_events)

text \<open>
  Claim C8. Let the last call of \<^verbatim>\<open>turntheworld\<close> have read the clock value \<open>now\<close>, and let
  the world since then keep the counter of used action points and the start time that
  this call left. A call that reads the same clock value computes a budget that is not
  positive and runs no phase: the counter of used action points, the three registries,
  the buffer of new monsters and the list of calls made on characters stay as they are;
  only the member \<^verbatim>\<open>ap\<close> receives the new budget.
\<close>

theorem turntheworld_same_instant:
  assumes "0 < MIN_AP_UPDATE c"
    and "usedAP v = usedAP (turntheworld c inp now w)"
    and "timeStart v = timeStart w"
  shows "tickBudget c now v \<le> 0 \<and>
         turntheworld c inp2 now v = v\<lparr>ap := tickBudget c now v\<rparr> \<and>
         usedAP (turntheworld c inp2 now v) = usedAP v \<and>
         events (turntheworld c inp2 now v) = events v \<and>
         Players (turntheworld c inp2 now v) = Players v \<and>
         Monsters (turntheworld c inp2 now v) = Monsters v \<and>
         Npc (turntheworld c inp2 now v) = Npc v \<and>
         newMonsters (turntheworld c inp2 now v) = newMonsters v"
proof -
  have le: "tickBudget c now v \<le> 0"
  proof (cases "0 < tickBudget c now w")
    case True
    then have "budgetExpr c now v = budgetExpr c now w - tickBudget c now w"
      using assms(2,3) by (simp add: budgetExpr_def turntheworld_fire)
    then have "tickBudget c now v =
        to_ap (AP_BITS c) (budgetExpr c now w - to_ap (AP_BITS c) (budgetExpr c now w))"
      by (simp add: tickBudget_def)
    then show ?thesis
      by (simp add: to_ap_residue)
  next
    case False
    then have "budgetExpr c now v = budgetExpr c now w"
      using assms(2,3) by (simp add: turntheworld_idle budgetExpr_def)
    then have "tickBudget c now v = tickBudget c now w"
      by (simp add: tickBudget_def)
    with False show ?thesis by simp
  qed
  from turntheworld_idle [OF le]
  have "turntheworld c inp2 now v = v\<lparr>ap := tickBudget c now v\<rparr>" .
  with le show ?thesis by simp
qed

text \<open>
  The example world: the first call at 1250 ms fires with budget 2, the second call at
  the same instant leaves the calls and the counter as they are.
\<close>

theorem turntheworld_same_instant_witness:
  "0 < MIN_AP_UPDATE ex_tuning \<and>
   0 < tickBudget ex_tuning (Timeb 1 250) ex_world \<and>
   tickBudget ex_tuning (Timeb 1 250) (turntheworld ex_tuning ex_input (Timeb 1 250) ex_world) \<le> 0 \<and>
   events (turntheworld ex_tuning ex_input (Timeb 1 250)
             (turntheworld ex_tuning ex_input (Timeb 1 250) ex_world)) =
     events (turntheworld ex_tuning ex_input (Timeb 1 250) ex_world) \<and>
   usedAP (turntheworld ex_tuning ex_input (Timeb 1 250)
             (turntheworld ex_tuning ex_input (Timeb 1 250) ex_world)) = 2"
proof -
  have g: "0 < MIN_AP_UPDATE ex_tuning"
    by (simp add: ex_tuning_def)
  have pos: "0 < tickBudget ex_tuning (Timeb 1 250) ex_world"
    by (simp add: ex_budget)
  have u: "usedAP (turntheworld ex_tuning ex_input (Timeb 1 250) ex_world) = 2"
    by (simp add: turntheworld_fire [OF pos] ex_budget ex_world_fields)
  have t: "timeStart (turntheworld ex_tuning ex_input (Timeb 1 250) ex_world) = timeStart ex_world"
    by (rule timeStart_turntheworld)
  from turntheworld_same_instant [OF g refl t, of ex_input] g pos u
  show ?thesis by simp
qed

section \<open>Theorems: new monsters join the registry at the end of the monster phase\<close>

lemma Monsters_spawnMonsters [simp]: "Monsters (spawnMonsters inp w) = Monsters w"
  by (simp add: spawnMonsters_eq)

lemma Monsters_decrementAP [simp]: "Monsters (decrementAP w) = Monsters w"
  by (simp add: decrementAP_def)

lemma Monsters_visitMonsters [simp]: "Monsters (visitMonsters w) = Monsters w"
  by (simp add: visitMonsters_def emit_def)

lemma newMonsters_scan:
  "newMonsters (checkMonsters_scan inp w) = newMonsters w @ spawnedNow inp w"
  by (simp add: checkMonsters_scan_def Let_def fold_killMonster visitMonsters_def emit_def
      decrementAP_def spawnMonsters_eq)

lemma Monsters_scan:
  "Monsters (checkMonsters_scan inp w) =
     filter (\<lambda>m. getId m \<notin> set (map getId (deadMonsters w))) (Monsters w)"
  by (simp add: checkMonsters_scan_def Let_def fold_killMonster deadMonsters_def)

lemma Monsters_checkMonsters:
  "Monsters (checkMonsters inp w) =
     filter (\<lambda>m. getId m \<notin> set (map getId (deadMonsters w))) (Monsters w) @
     newMonsters w @ spawnedNow inp w"
  by (simp add: checkMonsters_def commitNewMonsters_def fold_commitMonster Monsters_scan
      newMonsters_scan)

lemma inRegistry_filter:
  "\<not> inRegistry m reg \<Longrightarrow> \<not> inRegistry m (filter P reg)"
  by (auto simp: inRegistry_def)

lemma statesBeforeCommit_Monsters:
  assumes "s \<in> set (statesBeforeCommit inp w)"
  shows "\<exists>P. Monsters s = filter P (Monsters w)"
proof -
  have t: "\<exists>P. Monsters w = filter P (Monsters w)"
    by (rule exI [of _ "\<lambda>m. True"]) simp
  from assms t show ?thesis
    unfolding statesBeforeCommit_def Let_def
    by (auto simp: fold_killMonster)
qed

lemma scan_in_statesBeforeCommit:
  "checkMonsters_scan inp w \<in> set (statesBeforeCommit inp w)"
proof -
  define dead where "dead = map getId (deadMonsters (decrementAP (spawnMonsters inp w)))"
  have "fold killMonster (take (length dead) dead) (visitMonsters (decrementAP (spawnMonsters inp w)))
      \<in> (\<lambda>k. fold killMonster (take k dead) (visitMonsters (decrementAP (spawnMonsters inp w))))
          ` {0..<Suc (length dead)}"
    by (rule imageI) simp
  then show ?thesis
    by (simp add: statesBeforeCommit_def checkMonsters_scan_def Let_def dead_def)
qed

text \<open>
  Claim C7. Every monster that the spawn points create during a run of \<^verbatim>\<open>checkMonsters\<close>,
  provided its id is new to the registry, is in no state of the registry before the loop
  over the buffer of new monsters (it waits in the buffer), and is in the registry when
  \<^verbatim>\<open>checkMonsters\<close> returns, with the buffer empty.
\<close>

theorem spawned_monsters_join_at_commit:
  assumes "\<forall>m \<in> set (spawnedNow inp w). \<not> inRegistry m (Monsters w)"
  shows "\<forall>m \<in> set (spawnedNow inp w).
           (\<forall>s \<in> set (statesBeforeCommit inp w). \<not> inRegistry m (Monsters s)) \<and>
           m \<in> set (newMonsters (checkMonsters_scan inp w)) \<and>
           m \<in> set (Monsters (checkMonsters inp w)) \<and>
           inRegistry m (Monsters (checkMonsters inp w)) \<and>
           newMonsters (checkMonsters inp w) = []"
proof
  fix m
  assume m: "m \<in> set (spawnedNow inp w)"
  with assms have fresh: "\<not> inRegistry m (Monsters w)" by blast
  have before: "\<forall>s \<in> set (statesBeforeCommit inp w). \<not> inRegistry m (Monsters s)"
  proof
    fix s
    assume "s \<in> set (statesBeforeCommit inp w)"
    then obtain P where "Monsters s = filter P (Monsters w)"
      using statesBeforeCommit_Monsters by blast
    with fresh show "\<not> inRegistry m (Monsters s)"
      by (simp add: inRegistry_filter)
  qed
  have buffered: "m \<in> set (newMonsters (checkMonsters_scan inp w))"
    using m by (simp add: newMonsters_scan)
  have after: "m \<in> set (Monsters (checkMonsters inp w))"
    using m by (simp add: Monsters_checkMonsters)
  then have reg: "inRegistry m (Monsters (checkMonsters inp w))"
    by (auto simp: inRegistry_def)
  have "newMonsters (checkMonsters inp w) = []"
    by (simp add: checkMonsters_def commitNewMonsters_def)
  with before buffered after reg
  show "(\<forall>s \<in> set (statesBeforeCommit inp w). \<not> inRegistry m (Monsters s)) \<and>
           m \<in> set (newMonsters (checkMonsters_scan inp w)) \<and>
           m \<in> set (Monsters (checkMonsters inp w)) \<and>
           inRegistry m (Monsters (checkMonsters inp w)) \<and>
           newMonsters (checkMonsters inp w) = []"
    by blast
qed

text \<open>
  The example world, whose spawn point creates the monster 20: the monster is not in the
  registry when the scan ends, it is in the buffer, and it is in the registry after the
  run.
\<close>

theorem spawned_monsters_join_at_commit_witness:
  "spawnedNow ex_input ex_world = [ex_monster 20 (Position 10 10 0) 0 0] \<and>
   \<not> inRegistry (ex_monster 20 (Position 10 10 0) 0 0) (Monsters ex_world) \<and>
   \<not> inRegistry (ex_monster 20 (Position 10 10 0) 0 0)
       (Monsters (checkMonsters_scan ex_input ex_world)) \<and>
   ex_monster 20 (Position 10 10 0) 0 0 \<in> set (newMonsters (checkMonsters_scan ex_input ex_world)) \<and>
   inRegistry (ex_monster 20 (Position 10 10 0) 0 0) (Monsters (checkMonsters ex_input ex_world))"
proof -
  have f: "\<not> inRegistry (ex_monster 20 (Position 10 10 0) 0 0) (Monsters ex_world)"
    by (simp add: inRegistry_def ex_world_fields ex_monster_def)
  then have fresh: "\<forall>m \<in> set (spawnedNow ex_input ex_world). \<not> inRegistry m (Monsters ex_world)"
    by (simp add: ex_spawnedNow)
  have s: "ex_monster 20 (Position 10 10 0) 0 0 \<in> set (spawnedNow ex_input ex_world)"
    by (simp add: ex_spawnedNow)
  from spawned_monsters_join_at_commit [OF fresh] s scan_in_statesBeforeCommit [of ex_input ex_world] f
  show ?thesis
    by (auto simp: ex_spawnedNow)
qed

section \<open>Theorems: combat targets\<close>

lemma ex_arena_fields:
  "Players ex_arena = [ex_player 2 (Position 0 1 0) True, ex_player 3 (Position 0 1 1) True,
                       ex_player 4 (Position 1 1 0) False]"
  "Monsters ex_arena = [ex_monster 7 (Position 0 0 0) 0 0, ex_monster 8 (Position 1 0 0) 0 0]"
  "Npc ex_arena = [ex_npc 9 (Position 0 2 0)]"
  by (simp_all add: ex_arena_def World_new_def)

lemma ex_arena_targets:
  "getTargetsInRange planar_max ex_arena (Position 0 0 0) 1 =
     [Character.truncate (ex_player 2 (Position 0 1 0) True),
      Character.truncate (ex_monster 8 (Position 1 0 0) 0 0)]"
  by (simp add: getTargetsInRange_def findAllAliveCharactersInRangeOf_def Let_def
      ex_arena_fields isInRange_def planar_max_def ex_player_def ex_monster_def)

text \<open>
  Claim C3, as the code has it. For every position and radius \<^verbatim>\<open>getTargetsInRange\<close>
  returns exactly the live players within range, followed by the live monsters within
  range that stand at another position than the query position. The query takes no
  monster as an argument and tests no allegiance.
\<close>

theorem getTargetsInRange_exact:
  "getTargetsInRange planar w pos r =
     map Character.truncate
       (filter (\<lambda>p. isAlive p \<and> isInRange planar pos \<lparr>radius = r, zRadius = 0\<rparr> (getPosition p))
          (Players w)) @
     map Character.truncate
       (filter (\<lambda>m. isAlive m \<and> isInRange planar pos \<lparr>radius = r, zRadius = 0\<rparr> (getPosition m)
                    \<and> getPosition m \<noteq> pos)
          (Monsters w))"
proof -
  have e: "\<And>m :: Monster. (pos \<noteq> getPosition m) = (getPosition m \<noteq> pos)"
    by auto
  show ?thesis
    by (simp add: getTargetsInRange_def findAllAliveCharactersInRangeOf_def Let_def e)
qed

text \<open>
  In the example arena the query of the monster 7 at its own position with radius 1
  returns the live player on its layer and the monster 8.
\<close>

theorem getTargetsInRange_exact_witness:
  "getTargetsInRange planar_max ex_arena (Position 0 0 0) 1 =
     [Character.truncate (ex_player 2 (Position 0 1 0) True),
      Character.truncate (ex_monster 8 (Position 1 0 0) 0 0)]"
  using getTargetsInRange_exact [of planar_max ex_arena "Position 0 0 0" 1]
  by (simp add: ex_arena_fields isInRange_def planar_max_def ex_player_def ex_monster_def)

text \<open>
  Claim C3 as the specification states it, with monsters "of a different allegiance",
  fails: the monsters 7 and 8 are of the same type, and the query of monster 7 returns
  monster 8, which the specification's reading with the type as allegiance excludes.
\<close>

theorem targets_allegiance_counterexample:
  "getMonsterType (ex_monster 8 (Position 1 0 0) 0 0) =
     getMonsterType (ex_monster 7 (Position 0 0 0) 0 0) \<and>
   Character.truncate (ex_monster 8 (Position 1 0 0) 0 0)
     \<in> set (getTargetsInRange planar_max ex_arena (getPosition (ex_monster 7 (Position 0 0 0) 0 0)) 1) \<and>
   Character.truncate (ex_monster 8 (Position 1 0 0) 0 0)
     \<notin> set (spec_targets getMonsterType (ex_monster 7 (Position 0 0 0) 0 0) planar_max ex_arena
              (getPosition (ex_monster 7 (Position 0 0 0) 0 0)) 1)"
proof -
  have p: "getPosition (ex_monster 7 (Position 0 0 0) 0 0) = Position 0 0 0"
    by (simp add: ex_monster_def)
  have s: "spec_targets getMonsterType (ex_monster 7 (Position 0 0 0) 0 0) planar_max ex_arena
             (Position 0 0 0) 1 = [Character.truncate (ex_player 2 (Position 0 1 0) True)]"
    by (simp add: spec_targets_def ex_arena_fields isInRange_def planar_max_def ex_player_def
        ex_monster_def)
  have n: "Character.truncate (ex_monster 8 (Position 1 0 0) 0 0)
             \<noteq> Character.truncate (ex_player 2 (Position 0 1 0) True)"
    by (simp add: Character.truncate_def ex_monster_def ex_player_def)
  show ?thesis
    by (simp add: p s n ex_arena_targets) (simp add: ex_monster_def)
qed

text \<open>
  Claim C10. \<^verbatim>\<open>getTargetsInRange\<close> sets the vertical reach of its range to 0, whatever the
  position and the planar radius: every target it returns stands on the layer of the
  query position.
\<close>

theorem getTargetsInRange_same_layer:
  "\<forall>c \<in> set (getTargetsInRange planar w pos r). pos_z (getPosition c) = pos_z pos"
  by (auto simp: getTargetsInRange_def findAllAliveCharactersInRangeOf_def Let_def isInRange_def
      Character.truncate_def)

text \<open>
  In the example arena the player one layer up is alive and within any planar radius,
  and is not a target even with radius 1000; the player on the layer of the query is.
\<close>

theorem getTargetsInRange_same_layer_witness:
  "Character.truncate (ex_player 2 (Position 0 1 0) True)
     \<in> set (getTargetsInRange planar_max ex_arena (Position 0 0 0) 1) \<and>
   pos_z (getPosition (Character.truncate (ex_player 2 (Position 0 1 0) True))) = 0 \<and>
   isAlive (ex_player 3 (Position 0 1 1) True) \<and>
   planar_max (Position 0 0 0) (getPosition (ex_player 3 (Position 0 1 1) True)) \<le> 1000 \<and>
   Character.truncate (ex_player 3 (Position 0 1 1) True)
     \<notin> set (getTargetsInRange planar_max ex_arena (Position 0 0 0) 1000)"
proof -
  have 1: "Character.truncate (ex_player 2 (Position 0 1 0) True)
     \<in> set (getTargetsInRange planar_max ex_arena (Position 0 0 0) 1)"
    by (simp add: ex_arena_targets)
  with getTargetsInRange_same_layer [of planar_max ex_arena "Position 0 0 0" 1]
  have 2: "pos_z (getPosition (Character.truncate (ex_player 2 (Position 0 1 0) True))) = 0"
    by auto
  have 3: "isAlive (ex_player 3 (Position 0 1 1) True) \<and>
   planar_max (Position 0 0 0) (getPosition (ex_player 3 (Position 0 1 1) True)) \<le> 1000"
    by (simp add: ex_player_def planar_max_def)
  have "pos_z (getPosition (Character.truncate (ex_player 3 (Position 0 1 1) True))) \<noteq> 0"
    by (simp add: Character.truncate_def ex_player_def)
  with getTargetsInRange_same_layer [of planar_max ex_arena "Position 0 0 0" 1000]
  have 4: "Character.truncate (ex_player 3 (Position 0 1 1) True)
     \<notin> set (getTargetsInRange planar_max ex_arena (Position 0 0 0) 1000)"
    by auto
  from 1 2 3 4 show ?thesis by blast
qed

section \<open>Theorems: who hears a message\<close>

lemma tellPlayers_players_only:
  "filter heardByNpcOrMonster (tellPlayers env t tmp ps) = []"
  by (induction ps arbitrary: tmp) (simp_all add: Let_def)

lemma tellNpc_heard: "filter heardByNpcOrMonster (map (tellNpc env t) ns) = map (tellNpc env t) ns"
  by (induction ns) (simp_all add: tellNpc_def)

lemma tellMonster_heard: "filter heardByNpcOrMonster (map (tellMonster t) ms) = map (tellMonster t) ms"
  by (induction ms) (simp_all add: tellMonster_def)

lemma ex_whisper_range: "getTalkRange (defaultRange ex_env) tt_whisper = \<lparr>radius = 2, zRadius = 0\<rparr>"
  by (simp add: getTalkRange_def ex_env_def)

lemma ex_in_range:
  "findAllCharactersInRangeOf planar_max (Npc ex_arena) (Position 0 0 0) \<lparr>radius = 2, zRadius = 0\<rparr>
     = [ex_npc 9 (Position 0 2 0)]"
  "findAllCharactersInRangeOf planar_max (Npc ex_arena) (Position 0 1 0) \<lparr>radius = 2, zRadius = 0\<rparr>
     = [ex_npc 9 (Position 0 2 0)]"
  "findAllCharactersInRangeOf planar_max (Monsters ex_arena) (Position 0 1 0)
     \<lparr>radius = 2, zRadius = 0\<rparr>
     = [ex_monster 7 (Position 0 0 0) 0 0, ex_monster 8 (Position 1 0 0) 0 0]"
  "findAllCharactersInRangeOf planar_max (Players ex_arena) (Position 0 0 0)
     \<lparr>radius = 2, zRadius = 0\<rparr>
     = [ex_player 2 (Position 0 1 0) True, ex_player 4 (Position 1 1 0) False]"
  "findAllCharactersInRangeOf planar_max (Players ex_arena) (Position 0 1 0)
     \<lparr>radius = 2, zRadius = 0\<rparr>
     = [ex_player 2 (Position 0 1 0) True, ex_player 4 (Position 1 1 0) False]"
  by (simp_all add: findAllCharactersInRangeOf_def ex_arena_fields isInRange_def planar_max_def
      ex_npc_def ex_monster_def ex_player_def)

lemma listeners_append: "listeners (xs @ ys) = listeners xs @ listeners ys"
  by (simp add: listeners_def)

lemma listeners_Nil: "listeners [] = []"
  by (simp add: listeners_def)

lemma listeners_tellPlayers:
  "listeners (tellPlayers env t tmp ps) = map (\<lambda>p. (player, getId p)) ps"
  by (induction ps arbitrary: tmp) (simp_all add: listeners_def Let_def)

lemma listeners_tellNpc:
  "listeners (map (tellNpc env t) ns) = map (\<lambda>n. (npc, getId n)) ns"
  by (induction ns) (simp_all add: listeners_def tellNpc_def)

lemma listeners_tellMonster:
  "listeners (map (tellMonster t) ms) = map (\<lambda>m. (monster, getId m)) ms"
  by (induction ms) (simp_all add: listeners_def tellMonster_def)

text \<open>
  Claim C4, as the code has it. \<^verbatim>\<open>sendMessageToAllCharsInRange\<close> calls \<^verbatim>\<open>receiveText\<close> once on
  every player in range, whoever speaks, and on no player out of range. When the speaker
  is a player it then calls it once on every NPC in range (the English text, altered by
  the NPC's skill, after the language prefix) and once on every monster in range (the
  English text). When the speaker is not a player it calls it on no NPC and on no
  monster: only the players in range hear a monster or an NPC.
\<close>

theorem npcs_and_monsters_hear_players_only:
  "listeners (sendMessageToAllCharsInRange env t w) =
     map (\<lambda>p. (player, getId p))
       (findAllCharactersInRangeOf (planarMetric env) (Players w) (getPosition (speaker t))
          (getTalkRange (defaultRange env) (talk t))) @
     (if getType (speaker t) = player then
        map (\<lambda>n. (npc, getId n))
          (findAllCharactersInRangeOf (planarMetric env) (Npc w) (getPosition (speaker t))
             (getTalkRange (defaultRange env) (talk t))) @
        map (\<lambda>m. (monster, getId m))
          (findAllCharactersInRangeOf (planarMetric env) (Monsters w) (getPosition (speaker t))
             (getTalkRange (defaultRange env) (talk t)))
      else []) \<and>
   filter heardByNpcOrMonster (sendMessageToAllCharsInRange env t w) =
     (if getType (speaker t) = player then
        map (tellNpc env t)
          (findAllCharactersInRangeOf (planarMetric env) (Npc w) (getPosition (speaker t))
             (getTalkRange (defaultRange env) (talk t))) @
        map (tellMonster t)
          (findAllCharactersInRangeOf (planarMetric env) (Monsters w) (getPosition (speaker t))
             (getTalkRange (defaultRange env) (talk t)))
      else [])"
  by (simp add: sendMessageToAllCharsInRange_def Let_def tellPlayers_players_only tellNpc_heard
      tellMonster_heard listeners_append listeners_Nil listeners_tellPlayers listeners_tellNpc
      listeners_tellMonster)

text \<open>
  In the example arena a whisper of player 2 reaches the players 2 and 4, the NPC 9 and
  the monsters 7 and 8, and not the player 3 one layer up; a whisper of monster 7
  reaches the players 2 and 4, no NPC and no monster.
\<close>

theorem npcs_and_monsters_hear_players_only_witness:
  "getType (speaker (ex_call (Character.truncate (ex_player 2 (Position 0 1 0) True)))) = player \<and>
   listeners
     (sendMessageToAllCharsInRange ex_env
        (ex_call (Character.truncate (ex_player 2 (Position 0 1 0) True))) ex_arena) =
     [(player, 2), (player, 4), (npc, 9), (monster, 7), (monster, 8)] \<and>
   filter heardByNpcOrMonster
     (sendMessageToAllCharsInRange ex_env
        (ex_call (Character.truncate (ex_player 2 (Position 0 1 0) True))) ex_arena) =
     [ReceiveText npc 9 tt_whisper ''[Human] hello'' 2,
      ReceiveText monster 7 tt_whisper ''hello'' 2,
      ReceiveText monster 8 tt_whisper ''hello'' 2] \<and>
   getType (speaker (ex_call (Character.truncate (ex_monster 7 (Position 0 0 0) 0 0)))) = monster \<and>
   listeners
     (sendMessageToAllCharsInRange ex_env
        (ex_call (Character.truncate (ex_monster 7 (Position 0 0 0) 0 0))) ex_arena) =
     [(player, 2), (player, 4)] \<and>
   filter heardByNpcOrMonster
     (sendMessageToAllCharsInRange ex_env
        (ex_call (Character.truncate (ex_monster 7 (Position 0 0 0) 0 0))) ex_arena) = []"
proof -
  have c: "getType (speaker (ex_call (Character.truncate (ex_player 2 (Position 0 1 0) True)))) = player"
    "getPosition (speaker (ex_call (Character.truncate (ex_player 2 (Position 0 1 0) True))))
       = Position 0 1 0"
    "talk (ex_call (Character.truncate (ex_player 2 (Position 0 1 0) True))) = tt_whisper"
    "getType (speaker (ex_call (Character.truncate (ex_monster 7 (Position 0 0 0) 0 0)))) = monster"
    "getPosition (speaker (ex_call (Character.truncate (ex_monster 7 (Position 0 0 0) 0 0))))
       = Position 0 0 0"
    "talk (ex_call (Character.truncate (ex_monster 7 (Position 0 0 0) 0 0))) = tt_whisper"
    "planarMetric ex_env = planar_max"
    by (simp_all add: ex_call_def Character.truncate_def ex_player_def ex_monster_def ex_env_def)
  have i: "\<And>k p a. getId (ex_player k p a) = k" "\<And>k p. getId (ex_npc k p) = k"
    "\<And>k p l r. getId (ex_monster k p l r) = k"
    by (simp_all add: ex_player_def ex_npc_def ex_monster_def)
  from npcs_and_monsters_hear_players_only
         [of ex_env "ex_call (Character.truncate (ex_player 2 (Position 0 1 0) True))" ex_arena]
  have 1: "listeners
     (sendMessageToAllCharsInRange ex_env
        (ex_call (Character.truncate (ex_player 2 (Position 0 1 0) True))) ex_arena) =
     [(player, 2), (player, 4), (npc, 9), (monster, 7), (monster, 8)]"
    by (simp add: c ex_whisper_range ex_in_range i)
  from npcs_and_monsters_hear_players_only
         [of ex_env "ex_call (Character.truncate (ex_player 2 (Position 0 1 0) True))" ex_arena]
  have 2: "filter heardByNpcOrMonster
     (sendMessageToAllCharsInRange ex_env
        (ex_call (Character.truncate (ex_player 2 (Position 0 1 0) True))) ex_arena) =
     [ReceiveText npc 9 tt_whisper ''[Human] hello'' 2,
      ReceiveText monster 7 tt_whisper ''hello'' 2,
      ReceiveText monster 8 tt_whisper ''hello'' 2]"
    by (simp add: c ex_whisper_range ex_in_range)
       (simp add: tellNpc_def tellMonster_def ex_call_def Character.truncate_def ex_player_def
          ex_monster_def ex_npc_def ex_env_def languagePrefix_def)
  from npcs_and_monsters_hear_players_only
         [of ex_env "ex_call (Character.truncate (ex_monster 7 (Position 0 0 0) 0 0))" ex_arena]
  have 3: "listeners
     (sendMessageToAllCharsInRange ex_env
        (ex_call (Character.truncate (ex_monster 7 (Position 0 0 0) 0 0))) ex_arena) =
     [(player, 2), (player, 4)]"
    and 4: "filter heardByNpcOrMonster
     (sendMessageToAllCharsInRange ex_env
        (ex_call (Character.truncate (ex_monster 7 (Position 0 0 0) 0 0))) ex_arena) = []"
    by (simp_all add: c ex_whisper_range ex_in_range i)
  from c 1 2 3 4 show ?thesis by blast
qed

text \<open>
  Claim C4 as the specification states it fails: monster 7 whispers, the NPC 9 is within
  the range of the whisper, and the only calls of \<^verbatim>\<open>receiveText\<close> are those on the two
  players in range.
\<close>

theorem monster_speech_counterexample:
  "getType (speaker (ex_call (Character.truncate (ex_monster 7 (Position 0 0 0) 0 0)))) = monster \<and>
   findAllCharactersInRangeOf (planarMetric ex_env) (Npc ex_arena)
     (getPosition (speaker (ex_call (Character.truncate (ex_monster 7 (Position 0 0 0) 0 0)))))
     (getTalkRange (defaultRange ex_env) (talk (ex_call (Character.truncate (ex_monster 7 (Position 0 0 0) 0 0)))))
     = [ex_npc 9 (Position 0 2 0)] \<and>
   sendMessageToAllCharsInRange ex_env
     (ex_call (Character.truncate (ex_monster 7 (Position 0 0 0) 0 0))) ex_arena =
     [ReceiveText player 2 tt_whisper ''hello'' 7, ReceiveText player 4 tt_whisper ''hello'' 7]"
proof -
  have c: "getType (speaker (ex_call (Character.truncate (ex_monster 7 (Position 0 0 0) 0 0)))) = monster"
    "getPosition (speaker (ex_call (Character.truncate (ex_monster 7 (Position 0 0 0) 0 0))))
       = Position 0 0 0"
    "talk (ex_call (Character.truncate (ex_monster 7 (Position 0 0 0) 0 0))) = tt_whisper"
    "planarMetric ex_env = planar_max"
    by (simp_all add: ex_call_def Character.truncate_def ex_monster_def ex_env_def)
  have "sendMessageToAllCharsInRange ex_env
     (ex_call (Character.truncate (ex_monster 7 (Position 0 0 0) 0 0))) ex_arena =
     tellPlayers ex_env (ex_call (Character.truncate (ex_monster 7 (Position 0 0 0) 0 0))) ''''
       [ex_player 2 (Position 0 1 0) True, ex_player 4 (Position 1 1 0) False]"
    by (simp add: sendMessageToAllCharsInRange_def Let_def c ex_whisper_range ex_in_range)
       (simp add: ex_env_def)
  also have "\<dots> = [ReceiveText player 2 tt_whisper ''hello'' 7, ReceiveText player 4 tt_whisper ''hello'' 7]"
    by (simp add: Let_def is_action_def ex_call_def Character.truncate_def ex_monster_def
        ex_player_def ex_env_def languagePrefix_def)
  finally show ?thesis
    by (simp add: c ex_whisper_range ex_in_range)
qed

section \<open>Theorems: loading the spawn points\<close>

lemma loadRows_SpawnList:
  "SpawnList (snd (loadRows ld rows w)) = SpawnList w @ map (newSpawn ld) (rowsRead rows)"
  by (induction ld rows w rule: loadRows.induct) (simp_all add: emit_def)

lemma loadRows_ok: "fst (loadRows ld rows w) \<longleftrightarrow> rowsFault rows = None"
  by (induction ld rows w rule: loadRows.induct) simp_all

lemma loadRows_logs:
  "rowsFault rows = Some what \<Longrightarrow>
   last (events (snd (loadRows ld rows w))) = LogError (''got exception in load SpawnPoints: '' @ what)"
  by (induction ld rows w rule: loadRows.induct) (simp_all add: emit_def)

text \<open>
  Claim C6, as the code has it. \<^verbatim>\<open>initRespawns\<close> returns false and leaves the spawn list
  empty when the query yields no rows. When the query throws, it logs the error, returns
  false and leaves the spawn list empty. When reading a row throws, it logs the error and
  returns false, and the spawn list holds the spawn points of the rows read before that
  row. In every case the list holds exactly the spawn points of the rows that were read,
  and nothing of the list the world had before the call.
\<close>

theorem initRespawns_outcomes:
  "(res = Inr [] \<longrightarrow>
      \<not> fst (initRespawns ld res w) \<and> SpawnList (snd (initRespawns ld res w)) = []) \<and>
   (\<forall>what. res = Inl what \<longrightarrow>
      \<not> fst (initRespawns ld res w) \<and> SpawnList (snd (initRespawns ld res w)) = [] \<and>
      last (events (snd (initRespawns ld res w)))
        = LogError (''got exception in load SpawnPoints: '' @ what)) \<and>
   (\<forall>rows. res = Inr rows \<longrightarrow>
      SpawnList (snd (initRespawns ld res w)) = map (newSpawn ld) (rowsRead rows) \<and>
      (fst (initRespawns ld res w) \<longleftrightarrow> rows \<noteq> [] \<and> rowsFault rows = None) \<and>
      (\<forall>what. rowsFault rows = Some what \<longrightarrow>
         \<not> fst (initRespawns ld res w) \<and>
         last (events (snd (initRespawns ld res w)))
           = LogError (''got exception in load SpawnPoints: '' @ what)))"
proof -
  have 1: "res = Inr [] \<longrightarrow>
      \<not> fst (initRespawns ld res w) \<and> SpawnList (snd (initRespawns ld res w)) = []"
    by (simp add: initRespawns_def)
  have 2: "\<forall>what. res = Inl what \<longrightarrow>
      \<not> fst (initRespawns ld res w) \<and> SpawnList (snd (initRespawns ld res w)) = [] \<and>
      last (events (snd (initRespawns ld res w)))
        = LogError (''got exception in load SpawnPoints: '' @ what)"
    by (simp add: initRespawns_def emit_def)
  have 3: "\<forall>rows. res = Inr rows \<longrightarrow>
      SpawnList (snd (initRespawns ld res w)) = map (newSpawn ld) (rowsRead rows) \<and>
      (fst (initRespawns ld res w) \<longleftrightarrow> rows \<noteq> [] \<and> rowsFault rows = None) \<and>
      (\<forall>what. rowsFault rows = Some what \<longrightarrow>
         \<not> fst (initRespawns ld res w) \<and>
         last (events (snd (initRespawns ld res w)))
           = LogError (''got exception in load SpawnPoints: '' @ what))"
    by (auto simp: initRespawns_def Let_def loadRows_SpawnList loadRows_ok loadRows_logs)
  from 1 2 3 show ?thesis by blast
qed

text \<open>
  No rows; a query that throws; three rows of which the second throws; two good rows.
\<close>

theorem initRespawns_outcomes_witness:
  "\<not> fst (initRespawns (\<lambda>i. []) (Inr []) ex_world) \<and>
   SpawnList (snd (initRespawns (\<lambda>i. []) (Inr []) ex_world)) = [] \<and>
   \<not> fst (initRespawns (\<lambda>i. []) (Inl ''connection lost'') ex_world) \<and>
   SpawnList (snd (initRespawns (\<lambda>i. []) (Inl ''connection lost'') ex_world)) = [] \<and>
   last (events (snd (initRespawns (\<lambda>i. []) (Inl ''connection lost'') ex_world)))
     = LogError ''got exception in load SpawnPoints: connection lost'' \<and>
   rowsFault [Inr (ex_row 3), Inl ''bad conversion'', Inr (ex_row 4)] = Some ''bad conversion'' \<and>
   \<not> fst (initRespawns (\<lambda>i. []) (Inr [Inr (ex_row 3), Inl ''bad conversion'', Inr (ex_row 4)]) ex_world) \<and>
   SpawnList (snd (initRespawns (\<lambda>i. []) (Inr [Inr (ex_row 3), Inl ''bad conversion'', Inr (ex_row 4)])
                ex_world)) = [newSpawn (\<lambda>i. []) (ex_row 3)] \<and>
   fst (initRespawns (\<lambda>i. []) (Inr [Inr (ex_row 3), Inr (ex_row 4)]) ex_world) \<and>
   SpawnList (snd (initRespawns (\<lambda>i. []) (Inr [Inr (ex_row 3), Inr (ex_row 4)]) ex_world))
     = [newSpawn (\<lambda>i. []) (ex_row 3), newSpawn (\<lambda>i. []) (ex_row 4)]"
proof -
  from initRespawns_outcomes [of "Inr []" "\<lambda>i. []" ex_world]
  have 1: "\<not> fst (initRespawns (\<lambda>i. []) (Inr []) ex_world) \<and>
   SpawnList (snd (initRespawns (\<lambda>i. []) (Inr []) ex_world)) = []"
    by simp
  from initRespawns_outcomes [of "Inl ''connection lost''" "\<lambda>i. []" ex_world]
  have 2: "\<not> fst (initRespawns (\<lambda>i. []) (Inl ''connection lost'') ex_world) \<and>
   SpawnList (snd (initRespawns (\<lambda>i. []) (Inl ''connection lost'') ex_world)) = [] \<and>
   last (events (snd (initRespawns (\<lambda>i. []) (Inl ''connection lost'') ex_world)))
     = LogError ''got exception in load SpawnPoints: connection lost''"
    by simp
  have f: "rowsFault [Inr (ex_row 3), Inl ''bad conversion'', Inr (ex_row 4)] = Some ''bad conversion''"
    by simp
  from initRespawns_outcomes
         [of "Inr [Inr (ex_row 3), Inl ''bad conversion'', Inr (ex_row 4)]" "\<lambda>i. []" ex_world]
  have 3: "\<not> fst (initRespawns (\<lambda>i. []) (Inr [Inr (ex_row 3), Inl ''bad conversion'', Inr (ex_row 4)]) ex_world) \<and>
   SpawnList (snd (initRespawns (\<lambda>i. []) (Inr [Inr (ex_row 3), Inl ''bad conversion'', Inr (ex_row 4)])
                ex_world)) = [newSpawn (\<lambda>i. []) (ex_row 3)]"
    by simp
  from initRespawns_outcomes [of "Inr [Inr (ex_row 3), Inr (ex_row 4)]" "\<lambda>i. []" ex_world]
  have 4: "fst (initRespawns (\<lambda>i. []) (Inr [Inr (ex_row 3), Inr (ex_row 4)]) ex_world) \<and>
   SpawnList (snd (initRespawns (\<lambda>i. []) (Inr [Inr (ex_row 3), Inr (ex_row 4)]) ex_world))
     = [newSpawn (\<lambda>i. []) (ex_row 3), newSpawn (\<lambda>i. []) (ex_row 4)]"
    by simp
  from 1 2 f 3 4 show ?thesis by blast
qed

text \<open>
  Claim C6 as the specification states it, with a list that is empty or unchanged after
  every failure, fails: when the second of two rows throws, the call returns false and
  the list of a world that had no spawn point holds the spawn point of the first row.
\<close>

theorem partial_spawn_list_counterexample:
  "\<not> fst (initRespawns (\<lambda>i. []) (Inr [Inr (ex_row 3), Inl ''bad conversion'']) (World_new 1 0)) \<and>
   SpawnList (snd (initRespawns (\<lambda>i. []) (Inr [Inr (ex_row 3), Inl ''bad conversion''])
                     (World_new 1 0)))
     = [newSpawn (\<lambda>i. []) (ex_row 3)] \<and>
   SpawnList (snd (initRespawns (\<lambda>i. []) (Inr [Inr (ex_row 3), Inl ''bad conversion''])
                     (World_new 1 0))) \<noteq> [] \<and>
   SpawnList (snd (initRespawns (\<lambda>i. []) (Inr [Inr (ex_row 3), Inl ''bad conversion''])
                     (World_new 1 0)))
     \<noteq> SpawnList (World_new 1 0)"
  by (simp add: initRespawns_def emit_def World_new_def)

end
